theory Spec2Isabelle
  imports Complex_Main "HOL-Library.Word" "HOL-Library.AList"
begin

section \<open>The exclusion step of the FoundationDB operator\<close>

text \<open>
  A shallow embedding of \<^verbatim>\<open>controllers/exclude_processes.go\<close> (the sub-reconciler
  \<^verbatim>\<open>excludeProcesses\<close> and its helpers) and of \<^verbatim>\<open>getDatabaseClientProvider\<close> of
  \<^verbatim>\<open>backup_controller.go\<close>. Go's \<^verbatim>\<open>int\<close> is the 64-bit two's complement integer
  of the platforms the operator is built for: \<open>+\<close>, \<open>-\<close> and \<open>++\<close> wrap around and
  comparisons are signed (\<open>sint\<close>).
\<close>

subsection \<open>Basic types\<close>

type_synonym goint = "64 word"
type_synonym ProcessGroupID = string
type_synonym ProcessClass = string
type_synonym error = string

text \<open>\<^verbatim>\<open>time.Duration\<close> counts nanoseconds in an int64; a duration is kept as the
  integer it denotes.\<close>

type_synonym Duration = int

definition Second :: Duration where
  "Second = 1000000000"

definition Minute :: Duration where
  "Minute = 60 * Second"

subsection \<open>getAllowedExclusions\<close>

text \<open>
  \<^verbatim>\<open>
  allowedExclusions := validProcesses + faultTolerance - desiredProcessCount - ongoingExclusions
  if allowedExclusions < 0 { return 0 }
  return allowedExclusions
  \<close>
  The logger call has no effect on the result and is left out.
\<close>

definition getAllowedExclusions :: "goint \<Rightarrow> goint \<Rightarrow> goint \<Rightarrow> goint \<Rightarrow> goint" where
  "getAllowedExclusions validProcesses desiredProcessCount ongoingExclusions faultTolerance =
     (let allowedExclusions =
            validProcesses + faultTolerance - desiredProcessCount - ongoingExclusions
      in if sint allowedExclusions < 0 then 0 else allowedExclusions)"

subsection \<open>getDatabaseClientProvider of the backup reconciler\<close>

text \<open>
  \<^verbatim>\<open>
  if r.DatabaseClientProvider != nil { return r.DatabaseClientProvider }
  panic("Backup reconciler does not have a DatabaseClientProvider defined")
  \<close>
  The interface value is \<open>None\<close> when nil. A panic is the left summand, carrying the
  panic's message.
\<close>

datatype panic = Panic string

record 'p FoundationDBBackupReconciler =
  InSimulation :: bool
  DatabaseClientProvider :: "'p option"
  ServerSideApply :: bool

definition getDatabaseClientProvider :: "'p FoundationDBBackupReconciler \<Rightarrow> panic + 'p" where
  "getDatabaseClientProvider r =
     (case DatabaseClientProvider r of
        Some provider \<Rightarrow> Inr provider
      | None \<Rightarrow> Inl (Panic ''Backup reconciler does not have a DatabaseClientProvider defined''))"

subsection \<open>Data of the exclusion step\<close>

text \<open>
  The types of \<^verbatim>\<open>api/v1beta2\<close> are declared in a package that is not modelled. A record keeps
  the fields the step reads; where the step calls a method of such a type (as
  \<^verbatim>\<open>IsMarkedForRemoval()\<close>, \<^verbatim>\<open>IsExcluded()\<close>, \<^verbatim>\<open>GetExclusionString()\<close>,
  \<^verbatim>\<open>GetConditionTime(MissingProcesses)\<close>, \<^verbatim>\<open>UseLocalitiesForExclusion()\<close>), the field
  of that name holds what the method returns. A \<^verbatim>\<open>net.IP\<close> is \<open>None\<close> when nil.
\<close>

record 'ip ProcessAddress =
  IPAddress :: "'ip option"
  StringAddress :: string

record 'ip excludeEntry =
  processGroupID :: ProcessGroupID
  addresses :: "'ip ProcessAddress list"

record ProcessGroupStatus =
  ProcessGroupID :: ProcessGroupID
  ProcessClass :: ProcessClass
  Addresses :: "string list"
  IsMarkedForRemoval :: bool
  IsExcluded :: bool
  GetExclusionString :: string
  GetConditionTime_MissingProcesses :: "64 word option"

record FoundationDBCluster =
  ProcessGroups :: "ProcessGroupStatus list"
  ProcessGroupIDPrefix :: string
  GetSynchronizationMode :: string
  UseLocalitiesForExclusion :: bool
  DesiredFaultTolerance :: goint
  GetProcessCountsWithDefaults :: "error + (ProcessClass \<Rightarrow> goint)"
  ShouldUseLocks :: bool

text \<open>Of the database status the step itself touches one field,
  \<^verbatim>\<open>status.Cluster.RecoveryState.SecondsSinceLastRecovered\<close>; everything else is read
  by functions of other packages, which are parameters below.\<close>

record FoundationDBStatus =
  SecondsSinceLastRecovered :: real

datatype UpdateAction = UpdateActionAdd | UpdateActionDelete

definition ProcessClassTest :: ProcessClass where
  "ProcessClassTest = ''test''"

definition SynchronizationModeGlobal :: string where
  "SynchronizationModeGlobal = ''global''"

text \<open>The fields the step sets in a \<^verbatim>\<open>requeue\<close>; \<open>emptyRequeue\<close> is Go's zero value.\<close>

record requeue =
  curError :: "error option"
  delayedRequeue :: bool
  delay :: Duration
  message :: string

definition emptyRequeue :: requeue where
  "emptyRequeue = \<lparr>curError = None, delayedRequeue = False, delay = 0, message = []\<rparr>"

text \<open>\<^verbatim>\<open>len\<close> of a slice, as a Go \<^verbatim>\<open>int\<close> (a slice has fewer than \<open>2 ^ 63\<close> elements).\<close>

definition len :: "'a list \<Rightarrow> goint" where
  "len xs = of_nat (length xs)"

subsection \<open>Time\<close>

text \<open>
  The part of Go's package \<^verbatim>\<open>time\<close> that the step uses, with the arithmetic of the
  library. A \<^verbatim>\<open>time.Time\<close> without monotonic reading is what its methods \<^verbatim>\<open>sec()\<close> and
  \<^verbatim>\<open>nsec()\<close> return: the seconds since January 1 of year 1 as an int64, and the
  nanoseconds within the second as an int32. A clock reading enters the comparison below
  through these two methods only.
\<close>

record Time =
  sec :: "64 word"
  nsec :: "32 word"

text \<open>\<^verbatim>\<open>time.Unix(s, 0)\<close>: the library adds the seconds between year 1 and 1970 to \<open>s\<close>
  in an int64, which wraps around for \<open>s\<close> above 9223371974719179007.\<close>

definition unixToInternal :: "64 word" where
  "unixToInternal = 62135596800"

definition Unix :: "64 word \<Rightarrow> Time" where
  "Unix s = \<lparr>sec = s + unixToInternal, nsec = 0\<rparr>"

definition maxDuration :: Duration where
  "maxDuration = 9223372036854775807"

definition minDuration :: Duration where
  "minDuration = - 9223372036854775808"

text \<open>Go's \<^verbatim>\<open>/\<close> and \<^verbatim>\<open>%\<close> on integers truncate towards zero.\<close>

definition quot :: "int \<Rightarrow> int \<Rightarrow> int" where
  "quot a b = sgn a * sgn b * (\<bar>a\<bar> div \<bar>b\<bar>)"

definition rem :: "int \<Rightarrow> int \<Rightarrow> int" where
  "rem a b = a - quot a b * b"

text \<open>
  \<^verbatim>\<open>
  sum := t.ext + d
  if (sum > t.ext) == (d > 0) { t.ext = sum }
  else if d > 0 { t.ext = 1<<63 - 1 } else { t.ext = -(1<<63 - 1) }
  \<close>
\<close>

definition addSec :: "Time \<Rightarrow> 64 word \<Rightarrow> Time" where
  "addSec t d =
     (let sum = sec t + d
      in if (sint (sec t) < sint sum) = (0 < sint d) then t\<lparr>sec := sum\<rparr>
         else if 0 < sint d then t\<lparr>sec := 9223372036854775807\<rparr>
         else t\<lparr>sec := - 9223372036854775807\<rparr>)"

text \<open>
  \<^verbatim>\<open>
  dsec := int64(d / 1e9)
  nsec := t.nsec() + int32(d%1e9)
  if nsec >= 1e9 { dsec++; nsec -= 1e9 } else if nsec < 0 { dsec--; nsec += 1e9 }
  t.addSec(dsec)
  \<close>
\<close>

definition Add :: "Time \<Rightarrow> 64 word \<Rightarrow> Time" where
  "Add t d =
     (let dsec = (word_of_int (quot (sint d) 1000000000) :: 64 word);
          n = nsec t + (word_of_int (rem (sint d) 1000000000) :: 32 word)
      in if 1000000000 \<le> sint n then addSec (t\<lparr>nsec := n - 1000000000\<rparr>) (dsec + 1)
         else if sint n < 0 then addSec (t\<lparr>nsec := n + 1000000000\<rparr>) (dsec - 1)
         else addSec (t\<lparr>nsec := n\<rparr>) dsec)"

definition Equal :: "Time \<Rightarrow> Time \<Rightarrow> bool" where
  "Equal t u = (sec t = sec u \<and> nsec t = nsec u)"

definition Before :: "Time \<Rightarrow> Time \<Rightarrow> bool" where
  "Before t u =
     (sint (sec t) < sint (sec u) \<or> sec t = sec u \<and> sint (nsec t) < sint (nsec u))"

text \<open>
  \<^verbatim>\<open>t.Sub(u)\<close>, for a \<open>u\<close> without monotonic reading:
  \<^verbatim>\<open>
  d := Duration(t.sec()-u.sec())*Second + Duration(t.nsec()-u.nsec())
  switch {
  case u.Add(d).Equal(t): return d
  case t.Before(u): return minDuration
  default: return maxDuration
  }
  \<close>
  and \<^verbatim>\<open>time.Since(t)\<close>, which is \<^verbatim>\<open>Now().Sub(t)\<close> for the clock reading \<open>now\<close>.
\<close>

definition Sub :: "Time \<Rightarrow> Time \<Rightarrow> Duration" where
  "Sub t u =
     (let d = (sec t - sec u) * 1000000000 + (scast (nsec t - nsec u) :: 64 word)
      in if Equal (Add u d) t then sint d
         else if Before t u then minDuration
         else maxDuration)"

definition Since :: "Time \<Rightarrow> Time \<Rightarrow> Duration" where
  "Since now t = Sub now t"

text \<open>Modelled from the spec: the constant \<^verbatim>\<open>coordination.IgnoreMissingProcessDuration\<close>
  is missing, it is declared in the package \<^verbatim>\<open>internal/coordination\<close>; the spec gives
  the grace window as 5 minutes (and so does the log message of the code that uses it).\<close>

definition IgnoreMissingProcessDuration :: Duration where
  "IgnoreMissingProcessDuration = 5 * Minute"

subsection \<open>getAllowedExclusionsAndMissingProcesses\<close>

text \<open>
  The loop over \<^verbatim>\<open>cluster.Status.ProcessGroups\<close>. Its state is \<^verbatim>\<open>missingProcesses\<close>,
  \<^verbatim>\<open>validProcesses\<close> and \<^verbatim>\<open>exclusionsAllowed\<close>. \<^verbatim>\<open>time.Since\<close> reads the clock anew
  for every process group: \<open>now i\<close> is the reading taken for the group at index \<open>i\<close>.
\<close>

record missingState =
  missingProcesses :: "ProcessGroupID list"
  validProcesses :: goint
  exclusionsAllowed :: bool

fun missingLoop ::
  "(nat \<Rightarrow> Time) \<Rightarrow> ProcessClass \<Rightarrow> bool \<Rightarrow> nat \<Rightarrow> ProcessGroupStatus list
     \<Rightarrow> missingState \<Rightarrow> missingState" where
  "missingLoop now processClass inSimulation i [] st = st"
| "missingLoop now processClass inSimulation i (processGroup # rest) st =
     (if ProcessClass processGroup \<noteq> processClass
      then missingLoop now processClass inSimulation (Suc i) rest st
      else if IsMarkedForRemoval processGroup \<and> IsExcluded processGroup
      then missingLoop now processClass inSimulation (Suc i) rest st
      else
        (case GetConditionTime_MissingProcesses processGroup of
           Some missingTimestamp \<Rightarrow>
             if \<not> inSimulation
             then missingLoop now processClass inSimulation (Suc i) rest
                    (st\<lparr>missingProcesses :=
                          missingProcesses st @ [ProcessGroupID processGroup],
                        exclusionsAllowed :=
                          (if Since (now i) (Unix missingTimestamp)
                                < IgnoreMissingProcessDuration
                           then False else exclusionsAllowed st)\<rparr>)
             else missingLoop now processClass inSimulation (Suc i) rest
                    (st\<lparr>validProcesses := validProcesses st + 1\<rparr>)
         | None \<Rightarrow>
             missingLoop now processClass inSimulation (Suc i) rest
               (st\<lparr>validProcesses := validProcesses st + 1\<rparr>)))"

definition missingInit :: missingState where
  "missingInit = \<lparr>missingProcesses = [], validProcesses = 0, exclusionsAllowed = True\<rparr>"

definition getAllowedExclusionsAndMissingProcesses ::
  "(nat \<Rightarrow> Time) \<Rightarrow> FoundationDBCluster \<Rightarrow> ProcessClass \<Rightarrow> goint \<Rightarrow> goint \<Rightarrow> bool
     \<Rightarrow> goint \<times> ProcessGroupID list" where
  "getAllowedExclusionsAndMissingProcesses now cluster processClass desiredProcessCount
       ongoingExclusions inSimulation =
     (let st = missingLoop now processClass inSimulation 0 (ProcessGroups cluster) missingInit
      in if \<not> exclusionsAllowed st then (0, missingProcesses st)
         else (getAllowedExclusions (validProcesses st) desiredProcessCount ongoingExclusions
                 (DesiredFaultTolerance cluster),
               missingProcesses st))"

subsection \<open>Predicates used to state the properties of the missing-process loop\<close>

text \<open>A process group the loop looks at for a class: it is of that class and it is not
  both marked for removal and excluded.\<close>

definition counted :: "ProcessClass \<Rightarrow> ProcessGroupStatus \<Rightarrow> bool" where
  "counted pc pg = (ProcessClass pg = pc \<and> \<not> (IsMarkedForRemoval pg \<and> IsExcluded pg))"

text \<open>Such a group blocks the exclusions when, at the clock reading \<open>t\<close>, its
  MissingProcesses condition is younger than the grace window.\<close>

definition blocks :: "ProcessClass \<Rightarrow> Time \<Rightarrow> ProcessGroupStatus \<Rightarrow> bool" where
  "blocks pc t pg =
     (counted pc pg \<and>
      (case GetConditionTime_MissingProcesses pg of
         Some ts \<Rightarrow> Since t (Unix ts) < IgnoreMissingProcessDuration
       | None \<Rightarrow> False))"

subsection \<open>Example clusters\<close>

text \<open>Three storage process groups, the third one marked for removal, excluded, and
  with a MissingProcesses condition set at second 1000.\<close>

definition recentlyMissingCluster :: FoundationDBCluster where
  "recentlyMissingCluster =
     \<lparr>ProcessGroups =
        [\<lparr>ProcessGroupID = ''storage-1'', ProcessClass = ''storage'', Addresses = [''10.0.0.1''],
          IsMarkedForRemoval = False, IsExcluded = False,
          GetExclusionString = ''locality_instance_id:storage-1'',
          GetConditionTime_MissingProcesses = None\<rparr>,
         \<lparr>ProcessGroupID = ''storage-2'', ProcessClass = ''storage'', Addresses = [''10.0.0.2''],
          IsMarkedForRemoval = False, IsExcluded = False,
          GetExclusionString = ''locality_instance_id:storage-2'',
          GetConditionTime_MissingProcesses = None\<rparr>,
         \<lparr>ProcessGroupID = ''storage-3'', ProcessClass = ''storage'', Addresses = [''10.0.0.3''],
          IsMarkedForRemoval = True, IsExcluded = True,
          GetExclusionString = ''locality_instance_id:storage-3'',
          GetConditionTime_MissingProcesses = Some 1000\<rparr>],
      ProcessGroupIDPrefix = [],
      GetSynchronizationMode = ''local'',
      UseLocalitiesForExclusion = True,
      DesiredFaultTolerance = 1,
      GetProcessCountsWithDefaults = Inr (\<lambda>c. if c = ''storage'' then 2 else 0),
      ShouldUseLocks = False\<rparr>"

text \<open>Four storage process groups: two healthy ones, one with a MissingProcesses
  condition set at second 1000 and not marked for removal, and one marked for removal
  and not yet excluded.\<close>

definition graceCluster :: FoundationDBCluster where
  "graceCluster =
     \<lparr>ProcessGroups =
        [\<lparr>ProcessGroupID = ''storage-1'', ProcessClass = ''storage'', Addresses = [''10.0.0.1''],
          IsMarkedForRemoval = False, IsExcluded = False,
          GetExclusionString = ''locality_instance_id:storage-1'',
          GetConditionTime_MissingProcesses = None\<rparr>,
         \<lparr>ProcessGroupID = ''storage-2'', ProcessClass = ''storage'', Addresses = [''10.0.0.2''],
          IsMarkedForRemoval = False, IsExcluded = False,
          GetExclusionString = ''locality_instance_id:storage-2'',
          GetConditionTime_MissingProcesses = None\<rparr>,
         \<lparr>ProcessGroupID = ''storage-3'', ProcessClass = ''storage'', Addresses = [''10.0.0.3''],
          IsMarkedForRemoval = False, IsExcluded = False,
          GetExclusionString = ''locality_instance_id:storage-3'',
          GetConditionTime_MissingProcesses = Some 1000\<rparr>,
         \<lparr>ProcessGroupID = ''storage-4'', ProcessClass = ''storage'', Addresses = [''10.0.0.4''],
          IsMarkedForRemoval = True, IsExcluded = False,
          GetExclusionString = ''locality_instance_id:storage-4'',
          GetConditionTime_MissingProcesses = None\<rparr>],
      ProcessGroupIDPrefix = [],
      GetSynchronizationMode = ''local'',
      UseLocalitiesForExclusion = True,
      DesiredFaultTolerance = 1,
      GetProcessCountsWithDefaults = Inr (\<lambda>c. if c = ''storage'' then 2 else 0),
      ShouldUseLocks = False\<rparr>"

subsection \<open>Collaborators\<close>

text \<open>
  The step calls functions of other packages of the repository (\<^verbatim>\<open>api/v1beta2\<close>,
  \<^verbatim>\<open>pkg/fdbstatus\<close>, \<^verbatim>\<open>internal/coordination\<close>, \<^verbatim>\<open>internal/coordinator\<close>), of the
  Go library and of the Kubernetes client, none of which is modelled.
  They are parameters: a field of \<open>env\<close> holds the function, and every property below
  holds for all of them. \<open>timeNow c i\<close> is the clock reading that \<^verbatim>\<open>time.Since\<close> takes
  for the process group at index \<open>i\<close> while class \<open>c\<close> is examined. Go leaves the order
  in which \<^verbatim>\<open>range\<close> visits the keys of a map open: the keys are visited in the order
  of their \<open>rangeOrder\<close> value, which can realise every order.
\<close>

record 'ip env =
  String :: "'ip ProcessAddress \<Rightarrow> string"
  ParseIP :: "string \<Rightarrow> 'ip option"
  IsTransaction :: "ProcessClass \<Rightarrow> bool"
  GetExclusions :: "FoundationDBStatus \<Rightarrow> error + 'ip ProcessAddress list"
  GetCoordinatorsFromStatus :: "FoundationDBStatus \<Rightarrow> string set"
  CanSafelyExcludeProcessesWithRecoveryState ::
    "FoundationDBCluster \<Rightarrow> FoundationDBStatus \<Rightarrow> real \<Rightarrow> error option"
  AllProcessesReadyForExclusion ::
    "(ProcessGroupID \<times> Time) list \<Rightarrow> (ProcessGroupID \<times> Time) list \<Rightarrow> Duration
       \<Rightarrow> error + (ProcessGroupID \<times> Time) list"
  GetAddressesFromCoordinationState ::
    "(ProcessGroupID \<times> Time) list \<Rightarrow> bool \<Rightarrow> bool \<Rightarrow> error + 'ip ProcessAddress list"
  ChangeCoordinators :: "FoundationDBCluster \<Rightarrow> FoundationDBStatus \<Rightarrow> error option"
  updateOrApply :: "FoundationDBCluster \<Rightarrow> error option"
  timeNow :: "ProcessClass \<Rightarrow> nat \<Rightarrow> Time"
  rangeOrder :: "ProcessClass \<Rightarrow> nat"

text \<open>
  What the database client provider hands out: the admin client and the lock client,
  each method with the result of its call. An error result is \<open>Some err\<close> or \<open>Inl err\<close>.
  \<^verbatim>\<open>GetPendingForExclusion\<close> and \<^verbatim>\<open>GetReadyForExclusion\<close> are called up to twice in
  a pass; their first argument here is the number of earlier calls, so that the second
  call may answer differently. A map from process group IDs to times that a client
  returns is an association list; \<open>map_of\<close> looks a key up and \<open>mapLen\<close> is Go's
  \<^verbatim>\<open>len\<close> of the map, the number of its keys.
\<close>

definition mapLen :: "('k \<times> 'v) list \<Rightarrow> nat" where
  "mapLen m = length (remdups (map fst m))"

record 'ip clients =
  GetAdminClientWithLogger :: "error option"
  GetStatus :: "error + FoundationDBStatus"
  GetPendingForExclusion :: "nat \<Rightarrow> string \<Rightarrow> error + (ProcessGroupID \<times> Time) list"
  UpdatePendingForExclusion :: "(ProcessGroupID \<times> UpdateAction) list \<Rightarrow> error option"
  GetReadyForExclusion :: "nat \<Rightarrow> string \<Rightarrow> error + (ProcessGroupID \<times> Time) list"
  UpdateReadyForExclusion :: "(ProcessGroupID \<times> UpdateAction) list \<Rightarrow> error option"
  ExcludeProcessesWithNoWait :: "'ip ProcessAddress list \<Rightarrow> bool \<Rightarrow> error option"
  GetLockClientWithLogger :: "error option"
  TakeLock :: "error option"

text \<open>The fields of \<^verbatim>\<open>FoundationDBClusterReconciler\<close> the step reads
  (\<open>ClusterDatabaseClientProvider\<close> is its field \<^verbatim>\<open>DatabaseClientProvider\<close>,
  \<open>SimulateTime\<close> is \<^verbatim>\<open>SimulationOptions.SimulateTime\<close>).\<close>

record 'ip FoundationDBClusterReconciler =
  ClusterDatabaseClientProvider :: "'ip clients option"
  SimulateTime :: bool
  MinimumRecoveryTimeForExclusion :: real
  GlobalSynchronizationWaitDuration :: Duration

subsection \<open>getProcessesToExclude\<close>

text \<open>
  The two maps the function returns and the map \<^verbatim>\<open>updatePendingExclusions\<close> it
  updates for its caller. \<^verbatim>\<open>fdbProcessesToExcludeByClass\<close> is an association list
  with one pair for each key, in the order the keys were first written; reading a key
  that is not there gives the empty slice, as in Go.
\<close>

record 'ip excludeState =
  fdbProcessesToExcludeByClass :: "(ProcessClass \<times> 'ip excludeEntry list) list"
  ongoingExclusionsByClass :: "ProcessClass \<Rightarrow> goint"
  updatePendingExclusions :: "(ProcessGroupID \<times> UpdateAction) list"

definition entriesOf :: "(ProcessClass \<times> 'a list) list \<Rightarrow> ProcessClass \<Rightarrow> 'a list" where
  "entriesOf m c = (case map_of m c of None \<Rightarrow> [] | Some es \<Rightarrow> es)"

definition appendEntry ::
  "(ProcessClass \<times> 'a list) list \<Rightarrow> ProcessClass \<Rightarrow> 'a \<Rightarrow> (ProcessClass \<times> 'a list) list" where
  "appendEntry m c e = AList.update c (entriesOf m c @ [e]) m"

text \<open>The loop over \<^verbatim>\<open>processGroup.Addresses\<close>; its state is \<^verbatim>\<open>allAddressesExcluded\<close>
  and \<^verbatim>\<open>addresses\<close> (here \<open>addrs\<close>).\<close>

fun addressLoop ::
  "'ip env \<Rightarrow> string set \<Rightarrow> string list \<Rightarrow> bool \<times> 'ip ProcessAddress list
     \<Rightarrow> bool \<times> 'ip ProcessAddress list" where
  "addressLoop env currentExclusionMap [] acc = acc"
| "addressLoop env currentExclusionMap (address # rest) (allAddressesExcluded, addrs) =
     (if address \<in> currentExclusionMap
      then addressLoop env currentExclusionMap rest (allAddressesExcluded, addrs)
      else addressLoop env currentExclusionMap rest
             (False, addrs @ [\<lparr>IPAddress = ParseIP env address, StringAddress = []\<rparr>]))"

text \<open>The body of the loop over \<^verbatim>\<open>cluster.Status.ProcessGroups\<close>, for one process
  group. In the branch for localities the source tests the exclusion map a second time
  and appends in the same way whether or not the class already has entries; both are
  kept.\<close>

definition excludeStep ::
  "'ip env \<Rightarrow> string set \<Rightarrow> FoundationDBCluster \<Rightarrow> (ProcessGroupID \<rightharpoonup> Time)
     \<Rightarrow> ProcessGroupStatus \<Rightarrow> 'ip excludeState \<Rightarrow> 'ip excludeState" where
  "excludeStep env currentExclusionMap cluster pendingExclusions processGroup st =
     (if ProcessClass processGroup = ProcessClassTest then st
      else if \<not> IsMarkedForRemoval processGroup then st
      else if IsExcluded processGroup then st
      else if GetExclusionString processGroup \<in> currentExclusionMap
      then st\<lparr>ongoingExclusionsByClass :=
                (ongoingExclusionsByClass st)
                  (ProcessClass processGroup :=
                     ongoingExclusionsByClass st (ProcessClass processGroup) + 1)\<rparr>
      else
        let st1 =
              (if pendingExclusions (ProcessGroupID processGroup) = None
               then st\<lparr>updatePendingExclusions :=
                         AList.update (ProcessGroupID processGroup) UpdateActionAdd
                           (updatePendingExclusions st)\<rparr>
               else st)
        in if UseLocalitiesForExclusion cluster then
             (if GetExclusionString processGroup \<in> currentExclusionMap then st1
              else if length (entriesOf (fdbProcessesToExcludeByClass st1)
                                (ProcessClass processGroup)) = 0
              then st1\<lparr>fdbProcessesToExcludeByClass :=
                         appendEntry (fdbProcessesToExcludeByClass st1)
                           (ProcessClass processGroup)
                           \<lparr>processGroupID = ProcessGroupID processGroup,
                            addresses =
                              [\<lparr>IPAddress = None,
                                StringAddress = GetExclusionString processGroup\<rparr>]\<rparr>\<rparr>
              else st1\<lparr>fdbProcessesToExcludeByClass :=
                         appendEntry (fdbProcessesToExcludeByClass st1)
                           (ProcessClass processGroup)
                           \<lparr>processGroupID = ProcessGroupID processGroup,
                            addresses =
                              [\<lparr>IPAddress = None,
                                StringAddress = GetExclusionString processGroup\<rparr>]\<rparr>\<rparr>)
           else
             (let (allAddressesExcluded, addrs) =
                    addressLoop env currentExclusionMap (Addresses processGroup) (True, []);
                  st2 =
                    (if 0 < length addrs
                     then st1\<lparr>fdbProcessesToExcludeByClass :=
                                appendEntry (fdbProcessesToExcludeByClass st1)
                                  (ProcessClass processGroup)
                                  \<lparr>processGroupID = ProcessGroupID processGroup,
                                   addresses = addrs\<rparr>\<rparr>
                     else st1)
              in if allAddressesExcluded
                 then st2\<lparr>ongoingExclusionsByClass :=
                            (ongoingExclusionsByClass st2)
                              (ProcessClass processGroup :=
                                 ongoingExclusionsByClass st2 (ProcessClass processGroup) + 1)\<rparr>
                 else st2))"

fun excludeLoop ::
  "'ip env \<Rightarrow> string set \<Rightarrow> FoundationDBCluster \<Rightarrow> (ProcessGroupID \<rightharpoonup> Time)
     \<Rightarrow> ProcessGroupStatus list \<Rightarrow> 'ip excludeState \<Rightarrow> 'ip excludeState" where
  "excludeLoop env currentExclusionMap cluster pendingExclusions [] st = st"
| "excludeLoop env currentExclusionMap cluster pendingExclusions (processGroup # rest) st =
     excludeLoop env currentExclusionMap cluster pendingExclusions rest
       (excludeStep env currentExclusionMap cluster pendingExclusions processGroup st)"

definition getProcessesToExclude ::
  "'ip env \<Rightarrow> 'ip ProcessAddress list \<Rightarrow> FoundationDBCluster \<Rightarrow> (ProcessGroupID \<rightharpoonup> Time)
     \<Rightarrow> (ProcessGroupID \<times> UpdateAction) list \<Rightarrow> 'ip excludeState" where
  "getProcessesToExclude env exclusions cluster pendingExclusions updatePending =
     (let currentExclusionMap = set (map (String env) exclusions)
      in excludeLoop env currentExclusionMap cluster pendingExclusions (ProcessGroups cluster)
           \<lparr>fdbProcessesToExcludeByClass = [],
            ongoingExclusionsByClass = (\<lambda>c. 0),
            updatePendingExclusions = updatePending\<rparr>)"

subsection \<open>Predicates used to state the properties of getProcessesToExclude\<close>

text \<open>
  \<open>candidateOf env current cluster c e pg\<close>: the entry \<open>e\<close>, filed under class \<open>c\<close>,
  stems from the process group \<open>pg\<close>, and \<open>pg\<close> was a candidate for exclusion given the
  strings \<open>current\<close> of the exclusions the cluster reports.
\<close>

definition candidateOf ::
  "'ip env \<Rightarrow> string set \<Rightarrow> FoundationDBCluster \<Rightarrow> ProcessClass \<Rightarrow> 'ip excludeEntry
     \<Rightarrow> ProcessGroupStatus \<Rightarrow> bool" where
  "candidateOf env current cluster c e pg =
     (ProcessGroupID pg = processGroupID e
      \<and> ProcessClass pg = c
      \<and> c \<noteq> ProcessClassTest
      \<and> IsMarkedForRemoval pg
      \<and> \<not> IsExcluded pg
      \<and> GetExclusionString pg \<notin> current
      \<and> (if UseLocalitiesForExclusion cluster
         then addresses e = [\<lparr>IPAddress = None, StringAddress = GetExclusionString pg\<rparr>]
         else addresses e \<noteq> []
              \<and> addresses e =
                  map (\<lambda>a. \<lparr>IPAddress = ParseIP env a, StringAddress = []\<rparr>)
                    (filter (\<lambda>a. a \<notin> current) (Addresses pg))))"

subsection \<open>The reconcile step\<close>

text \<open>
  What a pass leaves behind: how it ended (it returned a \<^verbatim>\<open>*requeue\<close>, \<open>None\<close> for
  nil, or it panicked), the calls it made in their order, and the status object it
  worked on (\<open>None\<close> while no status was passed in or fetched). A call whose result a
  property below speaks about is recorded with that result. The two messages that the
  loop over the classes logs are recorded as well, with the class of the context logger
  and the values logged: \<^verbatim>\<open>missingProcesses\<close>, \<^verbatim>\<open>addressesToExclude\<close>,
  \<^verbatim>\<open>allowedExclusions\<close>, \<^verbatim>\<open>ongoingExclusions\<close>.
\<close>

datatype passResult = Returned "requeue option" | Panicked panic

datatype 'ip event =
    EvGetStatus
  | EvGetPendingForExclusion string
  | EvUpdatePendingForExclusion "(ProcessGroupID \<times> UpdateAction) list"
  | EvCanSafelyExcludeProcessesWithRecoveryState "error option"
  | EvGetReadyForExclusion string
  | EvUpdateReadyForExclusion "(ProcessGroupID \<times> UpdateAction) list"
  | EvTakeLock "error option"
  | EvAllProcessesReadyForExclusion "(ProcessGroupID \<times> Time) list"
      "(ProcessGroupID \<times> Time) list" "error + (ProcessGroupID \<times> Time) list"
  | EvRecorderEvent "'ip ProcessAddress list"
  | EvExcludeProcessesWithNoWait "'ip ProcessAddress list" bool "error option"
  | EvChangeCoordinators "error option"
  | EvUpdateOrApply "error option"
  | EvClose
  | EvLogWaitingForMissingProcesses ProcessClass "ProcessGroupID list"
      "'ip excludeEntry list" goint goint
  | EvLogContinuingWithExclusion ProcessClass "ProcessGroupID list"
      "'ip excludeEntry list" goint goint

record 'ip outcome =
  result :: passResult
  trace :: "'ip event list"
  finalStatus :: "FoundationDBStatus option"

definition finish :: "passResult \<Rightarrow> FoundationDBStatus option \<Rightarrow> 'ip outcome" where
  "finish res st = \<lparr>result = res, trace = [], finalStatus = st\<rparr>"

definition after :: "'ip event list \<Rightarrow> 'ip outcome \<Rightarrow> 'ip outcome" where
  "after evs out = out\<lparr>trace := evs @ trace out\<rparr>"

text \<open>\<^verbatim>\<open>&requeue{curError: err}\<close> and \<^verbatim>\<open>&requeue{curError: err, delayedRequeue: true}\<close>.\<close>

definition errorRequeue :: "error \<Rightarrow> requeue" where
  "errorRequeue err = emptyRequeue\<lparr>curError := Some err\<rparr>"

definition delayedError :: "error \<Rightarrow> requeue" where
  "delayedError err = emptyRequeue\<lparr>curError := Some err, delayedRequeue := True\<rparr>"

text \<open>The other values of \<^verbatim>\<open>requeue\<close> the step returns: when the recovery state
  forbids the exclusion (line 132), when no class may exclude anything (line 224), when
  the transaction system holds the exclusion back (line 233), and when not all
  candidates were excluded (line 348).\<close>

definition requeueRecoveryState :: "error \<Rightarrow> requeue" where
  "requeueRecoveryState err =
     emptyRequeue\<lparr>curError := Some err, delayedRequeue := True, delay := 10 * Second\<rparr>"

definition requeueNotAllowed :: requeue where
  "requeueNotAllowed =
     emptyRequeue
       \<lparr>message := ''more exclusions needed but not allowed, have to wait for new processes to come up'',
        delayedRequeue := True\<rparr>"

definition requeueTransactionSystem :: requeue where
  "requeueTransactionSystem =
     emptyRequeue
       \<lparr>message := ''more exclusions needed but not allowed, have to wait until new processes for the transaction system are up to reduce number of recoveries.'',
        delayedRequeue := True\<rparr>"

definition requeueAdditional :: requeue where
  "requeueAdditional =
     emptyRequeue
       \<lparr>message := ''Additional processes must be excluded'',
        delay := 5 * Minute,
        delayedRequeue := True\<rparr>"

text \<open>\<^verbatim>\<open>getDatabaseClientProvider\<close> of the cluster reconciler, and \<^verbatim>\<open>takeLock\<close>.\<close>

definition getClusterDatabaseClientProvider ::
  "'ip FoundationDBClusterReconciler \<Rightarrow> panic + 'ip clients" where
  "getClusterDatabaseClientProvider r =
     (case ClusterDatabaseClientProvider r of
        Some provider \<Rightarrow> Inr provider
      | None \<Rightarrow>
          Inl (Panic ''Cluster reconciler does not have a DatabaseClientProvider defined''))"

definition takeLock ::
  "'ip FoundationDBClusterReconciler \<Rightarrow> FoundationDBCluster
     \<Rightarrow> (panic + error option) \<times> 'ip event list" where
  "takeLock r cluster =
     (if \<not> ShouldUseLocks cluster then (Inr None, [])
      else
        (case getClusterDatabaseClientProvider r of
           Inl p \<Rightarrow> (Inl p, [])
         | Inr provider \<Rightarrow>
             (case GetLockClientWithLogger provider of
                Some err \<Rightarrow> (Inr (Some err), [])
              | None \<Rightarrow> (Inr (TakeLock provider), [EvTakeLock (TakeLock provider)]))))"

text \<open>Lines 110 to 123: the exclusion strings and the addresses of the process groups
  whose ID is among the coordinators of the status.\<close>

definition coordinatorsExclusionString :: "FoundationDBCluster \<Rightarrow> string set \<Rightarrow> string set" where
  "coordinatorsExclusionString cluster coordinators =
     set (map GetExclusionString
            (filter (\<lambda>processGroup. ProcessGroupID processGroup \<in> coordinators)
               (ProcessGroups cluster)))"

definition coordinatorsAddress :: "FoundationDBCluster \<Rightarrow> string set \<Rightarrow> string set" where
  "coordinatorsAddress cluster coordinators =
     set (concat (map Addresses
            (filter (\<lambda>processGroup. ProcessGroupID processGroup \<in> coordinators)
               (ProcessGroups cluster))))"

text \<open>Lines 346 to 355: the end of the pass.\<close>

definition reconcile_end :: "bool \<Rightarrow> FoundationDBStatus \<Rightarrow> 'ip outcome" where
  "reconcile_end allExcluded status =
     (if \<not> allExcluded
      then finish (Returned (Some requeueAdditional)) (Some status)
      else finish (Returned None) (Some status))"

text \<open>Lines 315 to 344: the loop that sets \<^verbatim>\<open>coordinatorExcluded\<close>, and the change of
  coordinators that follows it.\<close>

definition coordinatorExcluded ::
  "'ip env \<Rightarrow> string set \<Rightarrow> string set \<Rightarrow> 'ip ProcessAddress list \<Rightarrow> bool" where
  "coordinatorExcluded env exclusionStrings addressStrings toExclude =
     list_ex (\<lambda>excludeProcess.
                String env excludeProcess \<in> addressStrings
              \<or> String env excludeProcess \<in> exclusionStrings)
       toExclude"

definition reconcile_coordinators ::
  "'ip env \<Rightarrow> FoundationDBCluster \<Rightarrow> FoundationDBStatus \<Rightarrow> string set \<Rightarrow> string set
     \<Rightarrow> 'ip ProcessAddress list \<Rightarrow> bool \<Rightarrow> 'ip outcome" where
  "reconcile_coordinators env cluster status exclusionStrings addressStrings
       toExclude allExcluded =
     (if coordinatorExcluded env exclusionStrings addressStrings toExclude
      then
        (case ChangeCoordinators env cluster status of
           Some coordinatorErr \<Rightarrow>
             after [EvChangeCoordinators (Some coordinatorErr)]
               (finish (Returned (Some (delayedError coordinatorErr))) (Some status))
         | None \<Rightarrow>
             after [EvChangeCoordinators None]
               (case updateOrApply env cluster of
                  Some err \<Rightarrow>
                    after [EvUpdateOrApply (Some err)]
                      (finish (Returned (Some (delayedError err))) (Some status))
                | None \<Rightarrow>
                    after [EvUpdateOrApply None] (reconcile_end allExcluded status)))
      else reconcile_end allExcluded status)"

text \<open>Lines 297 to 313: the event, the exclude call, and the reset of
  \<^verbatim>\<open>SecondsSinceLastRecovered\<close>, which comes before the result of the call is looked at.\<close>

definition reconcile_exclude ::
  "'ip env \<Rightarrow> 'ip clients \<Rightarrow> FoundationDBCluster \<Rightarrow> FoundationDBStatus \<Rightarrow> string set
     \<Rightarrow> string set \<Rightarrow> 'ip ProcessAddress list \<Rightarrow> bool \<Rightarrow> 'ip outcome" where
  "reconcile_exclude env adminClient cluster status exclusionStrings
       addressStrings toExclude allExcluded =
     (let err = ExcludeProcessesWithNoWait adminClient toExclude True;
          status' = status\<lparr>SecondsSinceLastRecovered := 0\<rparr>
      in after [EvRecorderEvent toExclude, EvExcludeProcessesWithNoWait toExclude True err]
           (case err of
              Some e \<Rightarrow> finish (Returned (Some (delayedError e))) (Some status')
            | None \<Rightarrow>
                reconcile_coordinators env cluster status' exclusionStrings
                  addressStrings toExclude allExcluded))"

text \<open>Lines 254 to 295: the additional checks of the global synchronization mode. Both
  maps are fetched a second time, with the empty prefix.\<close>

definition reconcile_global ::
  "'ip env \<Rightarrow> 'ip clients \<Rightarrow> 'ip FoundationDBClusterReconciler \<Rightarrow> FoundationDBCluster
     \<Rightarrow> FoundationDBStatus \<Rightarrow> string set \<Rightarrow> string set \<Rightarrow> bool \<Rightarrow> 'ip outcome" where
  "reconcile_global env adminClient r cluster status exclusionStrings
       addressStrings allExcluded =
     after [EvGetPendingForExclusion []]
       (case GetPendingForExclusion adminClient 1 [] of
          Inl err \<Rightarrow> finish (Returned (Some (delayedError err))) (Some status)
        | Inr pendingExclusions \<Rightarrow>
            after [EvGetReadyForExclusion []]
              (case GetReadyForExclusion adminClient 1 [] of
                 Inl err \<Rightarrow> finish (Returned (Some (delayedError err))) (Some status)
               | Inr readyExclusions \<Rightarrow>
                   after [EvAllProcessesReadyForExclusion pendingExclusions readyExclusions
                            (AllProcessesReadyForExclusion env pendingExclusions
                               readyExclusions (GlobalSynchronizationWaitDuration r))]
                   (case AllProcessesReadyForExclusion env pendingExclusions readyExclusions
                           (GlobalSynchronizationWaitDuration r) of
                      Inl err \<Rightarrow> finish (Returned (Some (delayedError err))) (Some status)
                    | Inr allowedExclusions \<Rightarrow>
                        (let allExcluded' =
                               (if mapLen allowedExclusions \<noteq> mapLen readyExclusions
                                then False else allExcluded);
                             useLocalities = UseLocalitiesForExclusion cluster
                         in case GetAddressesFromCoordinationState env allowedExclusions
                                   useLocalities (\<not> useLocalities) of
                              Inl err \<Rightarrow>
                                finish (Returned (Some (delayedError err))) (Some status)
                            | Inr toExclude \<Rightarrow>
                                reconcile_exclude env adminClient cluster status
                                  exclusionStrings addressStrings toExclude
                                  allExcluded'))))"

text \<open>Lines 239 to 295: the update of the ready entries (global mode only) and the lock,
  then the exclusion of the addresses collected locally or, in global mode, of the
  addresses the coordination state gives.\<close>

definition reconcile_takeLock ::
  "'ip env \<Rightarrow> 'ip clients \<Rightarrow> 'ip FoundationDBClusterReconciler \<Rightarrow> FoundationDBCluster
     \<Rightarrow> FoundationDBStatus \<Rightarrow> string set \<Rightarrow> string set \<Rightarrow> 'ip ProcessAddress list \<Rightarrow> bool
     \<Rightarrow> 'ip outcome" where
  "reconcile_takeLock env adminClient r cluster status exclusionStrings
       addressStrings toExclude allExcluded =
     (case takeLock r cluster of
        (Inl p, evs) \<Rightarrow> after evs (finish (Panicked p) (Some status))
      | (Inr (Some err), evs) \<Rightarrow>
          after evs (finish (Returned (Some (delayedError err))) (Some status))
      | (Inr None, evs) \<Rightarrow>
          after evs
            (if GetSynchronizationMode cluster = SynchronizationModeGlobal
             then reconcile_global env adminClient r cluster status
                    exclusionStrings addressStrings allExcluded
             else reconcile_exclude env adminClient cluster status
                    exclusionStrings addressStrings toExclude allExcluded))"

definition reconcile_lock ::
  "'ip env \<Rightarrow> 'ip clients \<Rightarrow> 'ip FoundationDBClusterReconciler \<Rightarrow> FoundationDBCluster
     \<Rightarrow> FoundationDBStatus \<Rightarrow> string set \<Rightarrow> string set
     \<Rightarrow> (ProcessGroupID \<times> UpdateAction) list \<Rightarrow> 'ip ProcessAddress list \<Rightarrow> bool
     \<Rightarrow> 'ip outcome" where
  "reconcile_lock env adminClient r cluster status exclusionStrings
       addressStrings updateReady toExclude allExcluded =
     (if GetSynchronizationMode cluster = SynchronizationModeGlobal
      then
        after [EvUpdateReadyForExclusion updateReady]
          (case UpdateReadyForExclusion adminClient updateReady of
             Some err \<Rightarrow> finish (Returned (Some (delayedError err))) (Some status)
           | None \<Rightarrow>
               reconcile_takeLock env adminClient r cluster status
                 exclusionStrings addressStrings toExclude allExcluded)
      else reconcile_takeLock env adminClient r cluster status exclusionStrings
             addressStrings toExclude allExcluded)"

text \<open>
  Lines 155 to 221: the loop over the classes that have candidates. Its state is
  \<^verbatim>\<open>transactionSystemExclusionAllowed\<close>, \<^verbatim>\<open>allProcessesExcluded\<close>,
  \<^verbatim>\<open>updateReadyExclusions\<close> and \<^verbatim>\<open>fdbProcessesToExclude\<close>, and the messages logged
  so far. The inner loop (lines 212
  to 220) runs over the first \<^verbatim>\<open>allowedExclusions\<close> entries, a number that is positive
  and was capped at the number of entries just before.
\<close>

record 'ip classState =
  transactionSystemExclusionAllowed :: bool
  allProcessesExcluded :: bool
  updateReadyExclusions :: "(ProcessGroupID \<times> UpdateAction) list"
  fdbProcessesToExclude :: "'ip ProcessAddress list"
  logged :: "'ip event list"

fun entryLoop ::
  "(ProcessGroupID \<rightharpoonup> Time) \<Rightarrow> 'ip excludeEntry list \<Rightarrow> 'ip classState \<Rightarrow> 'ip classState" where
  "entryLoop readyExclusions [] st = st"
| "entryLoop readyExclusions (entry # rest) st =
     entryLoop readyExclusions rest
       (st\<lparr>updateReadyExclusions :=
             (if readyExclusions (processGroupID entry) = None
              then AList.update (processGroupID entry) UpdateActionAdd
                     (updateReadyExclusions st)
              else updateReadyExclusions st),
           fdbProcessesToExclude := fdbProcessesToExclude st @ addresses entry\<rparr>)"

definition classStep ::
  "'ip env \<Rightarrow> 'ip FoundationDBClusterReconciler \<Rightarrow> FoundationDBCluster
     \<Rightarrow> (ProcessClass \<Rightarrow> goint) \<Rightarrow> 'ip excludeState \<Rightarrow> (ProcessGroupID \<rightharpoonup> Time)
     \<Rightarrow> ProcessClass \<Rightarrow> 'ip classState \<Rightarrow> 'ip classState" where
  "classStep env r cluster desiredProcessesMap candidates readyExclusions processClass st =
     (let ongoingExclusions = ongoingExclusionsByClass candidates processClass;
          processesToExclude =
            entriesOf (fdbProcessesToExcludeByClass candidates) processClass;
          (allowedExclusions, missing) =
            getAllowedExclusionsAndMissingProcesses (timeNow env processClass) cluster
              processClass (desiredProcessesMap processClass) ongoingExclusions
              (SimulateTime r)
      in if sint allowedExclusions \<le> 0
         then st\<lparr>transactionSystemExclusionAllowed :=
                   (if IsTransaction env processClass then False
                    else transactionSystemExclusionAllowed st),
                 logged :=
                   logged st @
                     [EvLogWaitingForMissingProcesses processClass missing
                        processesToExclude allowedExclusions ongoingExclusions],
                 allProcessesExcluded := False\<rparr>
         else
           (let st1 =
                  (if sint allowedExclusions < sint (len processesToExclude)
                   then st\<lparr>allProcessesExcluded := False,
                           logged :=
                             logged st @
                               [EvLogContinuingWithExclusion processClass missing
                                  processesToExclude allowedExclusions ongoingExclusions]\<rparr>
                   else st);
                allowedExclusions' =
                  (if sint (len processesToExclude) < sint allowedExclusions
                   then len processesToExclude else allowedExclusions)
            in entryLoop readyExclusions
                 (take (nat (sint allowedExclusions')) processesToExclude) st1))"

fun classLoop ::
  "'ip env \<Rightarrow> 'ip FoundationDBClusterReconciler \<Rightarrow> FoundationDBCluster
     \<Rightarrow> (ProcessClass \<Rightarrow> goint) \<Rightarrow> 'ip excludeState \<Rightarrow> (ProcessGroupID \<rightharpoonup> Time)
     \<Rightarrow> ProcessClass list \<Rightarrow> 'ip classState \<Rightarrow> 'ip classState" where
  "classLoop env r cluster desiredProcessesMap candidates readyExclusions [] st = st"
| "classLoop env r cluster desiredProcessesMap candidates readyExclusions
       (processClass # rest) st =
     classLoop env r cluster desiredProcessesMap candidates readyExclusions rest
       (classStep env r cluster desiredProcessesMap candidates readyExclusions processClass st)"

definition classInit :: "'ip classState" where
  "classInit =
     \<lparr>transactionSystemExclusionAllowed = True, allProcessesExcluded = True,
      updateReadyExclusions = [], fdbProcessesToExclude = [], logged = []\<rparr>"

text \<open>The classes in the order \<^verbatim>\<open>range\<close> visits them.\<close>

definition rangeKeys :: "'ip env \<Rightarrow> (ProcessClass \<times> 'a) list \<Rightarrow> ProcessClass list" where
  "rangeKeys env m = sort_key (rangeOrder env) (map fst m)"

text \<open>Lines 155 to 237: the loop and the two returns that suppress the exclusion.\<close>

definition reconcile_classes ::
  "'ip env \<Rightarrow> 'ip clients \<Rightarrow> 'ip FoundationDBClusterReconciler \<Rightarrow> FoundationDBCluster
     \<Rightarrow> FoundationDBStatus \<Rightarrow> string set \<Rightarrow> string set \<Rightarrow> (ProcessClass \<Rightarrow> goint)
     \<Rightarrow> 'ip excludeState \<Rightarrow> (ProcessGroupID \<rightharpoonup> Time) \<Rightarrow> 'ip outcome" where
  "reconcile_classes env adminClient r cluster status exclusionStrings
       addressStrings desiredProcessesMap candidates readyExclusions =
     (let st = classLoop env r cluster desiredProcessesMap candidates readyExclusions
                 (rangeKeys env (fdbProcessesToExcludeByClass candidates)) classInit
      in after (logged st)
           (if length (fdbProcessesToExclude st) = 0
            then finish (Returned (Some requeueNotAllowed)) (Some status)
            else if \<not> transactionSystemExclusionAllowed st
            then finish (Returned (Some requeueTransactionSystem)) (Some status)
            else reconcile_lock env adminClient r cluster status exclusionStrings
                   addressStrings (updateReadyExclusions st) (fdbProcessesToExclude st)
                   (allProcessesExcluded st)))"

text \<open>Lines 108 to 148: the strings and addresses of the coordinators, the check of the
  recovery state, the desired process counts, and the ready entries.\<close>

definition reconcile_prepare ::
  "'ip env \<Rightarrow> 'ip clients \<Rightarrow> 'ip FoundationDBClusterReconciler \<Rightarrow> FoundationDBCluster
     \<Rightarrow> FoundationDBStatus \<Rightarrow> 'ip excludeState \<Rightarrow> 'ip outcome" where
  "reconcile_prepare env adminClient r cluster status candidates =
     (let coordinators = GetCoordinatorsFromStatus env status;
          exclusionStrings = coordinatorsExclusionString cluster coordinators;
          addressStrings = coordinatorsAddress cluster coordinators;
          err = CanSafelyExcludeProcessesWithRecoveryState env cluster status
                  (MinimumRecoveryTimeForExclusion r)
      in after [EvCanSafelyExcludeProcessesWithRecoveryState err]
           (case err of
              Some e \<Rightarrow> finish (Returned (Some (requeueRecoveryState e))) (Some status)
            | None \<Rightarrow>
                (case GetProcessCountsWithDefaults cluster of
                   Inl e \<Rightarrow> finish (Returned (Some (delayedError e))) (Some status)
                 | Inr desiredProcessesMap \<Rightarrow>
                     if GetSynchronizationMode cluster = SynchronizationModeGlobal
                     then
                       after [EvGetReadyForExclusion (ProcessGroupIDPrefix cluster)]
                         (case GetReadyForExclusion adminClient 0
                                 (ProcessGroupIDPrefix cluster) of
                            Inl e \<Rightarrow>
                              finish (Returned (Some (delayedError e))) (Some status)
                          | Inr readyExclusions \<Rightarrow>
                              reconcile_classes env adminClient r cluster status
                                exclusionStrings addressStrings
                                desiredProcessesMap candidates (map_of readyExclusions))
                     else reconcile_classes env adminClient r cluster status
                            exclusionStrings addressStrings
                            desiredProcessesMap candidates Map.empty)))"

text \<open>Lines 73 to 106: the current exclusions, the pending entries, the candidates, and
  the early return when there are none.\<close>

definition reconcile_candidates ::
  "'ip env \<Rightarrow> 'ip clients \<Rightarrow> 'ip FoundationDBClusterReconciler \<Rightarrow> FoundationDBCluster
     \<Rightarrow> FoundationDBStatus \<Rightarrow> 'ip ProcessAddress list \<Rightarrow> (ProcessGroupID \<rightharpoonup> Time)
     \<Rightarrow> 'ip outcome" where
  "reconcile_candidates env adminClient r cluster status exclusions pendingExclusions =
     (let candidates = getProcessesToExclude env exclusions cluster pendingExclusions []
      in if length (fdbProcessesToExcludeByClass candidates) = 0
         then finish (Returned None) (Some status)
         else if GetSynchronizationMode cluster = SynchronizationModeGlobal
         then
           after [EvUpdatePendingForExclusion (updatePendingExclusions candidates)]
             (case UpdatePendingForExclusion adminClient (updatePendingExclusions candidates) of
                Some err \<Rightarrow> finish (Returned (Some (delayedError err))) (Some status)
              | None \<Rightarrow> reconcile_prepare env adminClient r cluster status candidates)
         else reconcile_prepare env adminClient r cluster status candidates)"

definition reconcile_exclusions ::
  "'ip env \<Rightarrow> 'ip clients \<Rightarrow> 'ip FoundationDBClusterReconciler \<Rightarrow> FoundationDBCluster
     \<Rightarrow> FoundationDBStatus \<Rightarrow> 'ip outcome" where
  "reconcile_exclusions env adminClient r cluster status =
     (case GetExclusions env status of
        Inl err \<Rightarrow> finish (Returned (Some (delayedError err))) (Some status)
      | Inr exclusions \<Rightarrow>
          if GetSynchronizationMode cluster = SynchronizationModeGlobal
          then
            after [EvGetPendingForExclusion (ProcessGroupIDPrefix cluster)]
              (case GetPendingForExclusion adminClient 0 (ProcessGroupIDPrefix cluster) of
                 Inl err \<Rightarrow> finish (Returned (Some (delayedError err))) (Some status)
               | Inr pendingExclusions \<Rightarrow>
                   reconcile_candidates env adminClient r cluster status exclusions
                     (map_of pendingExclusions))
          else reconcile_candidates env adminClient r cluster status exclusions Map.empty)"

text \<open>
  Lines 56 to 71, and the whole step: the admin client (whose \<^verbatim>\<open>Close\<close> is deferred,
  so it is the last call of every pass that obtained the client), and the status, which
  is fetched when the caller passed nil.
\<close>

definition reconcile_status ::
  "'ip env \<Rightarrow> 'ip clients \<Rightarrow> 'ip FoundationDBClusterReconciler \<Rightarrow> FoundationDBCluster
     \<Rightarrow> FoundationDBStatus option \<Rightarrow> 'ip outcome" where
  "reconcile_status env adminClient r cluster status =
     (case status of
        None \<Rightarrow>
          after [EvGetStatus]
            (case GetStatus adminClient of
               Inl err \<Rightarrow> finish (Returned (Some (errorRequeue err))) None
             | Inr fetched \<Rightarrow> reconcile_exclusions env adminClient r cluster fetched)
      | Some given \<Rightarrow> reconcile_exclusions env adminClient r cluster given)"

definition reconcile ::
  "'ip env \<Rightarrow> 'ip FoundationDBClusterReconciler \<Rightarrow> FoundationDBCluster
     \<Rightarrow> FoundationDBStatus option \<Rightarrow> 'ip outcome" where
  "reconcile env r cluster status =
     (case getClusterDatabaseClientProvider r of
        Inl p \<Rightarrow> finish (Panicked p) status
      | Inr provider \<Rightarrow>
          (case GetAdminClientWithLogger provider of
             Some err \<Rightarrow> finish (Returned (Some (errorRequeue err))) status
           | None \<Rightarrow>
               (let out = reconcile_status env provider r cluster status
                in out\<lparr>trace := trace out @ [EvClose]\<rparr>)))"

subsection \<open>An example environment and example passes\<close>

text \<open>Modelled from the spec: the method \<^verbatim>\<open>ProcessClass.IsTransaction\<close> is missing, it
  is declared in \<^verbatim>\<open>api/v1beta2\<close>. The spec names the log and coordinator classes as
  classes of the transaction system and storage as a class that is not one; the
  examples use no more than that.\<close>

definition exampleIsTransaction :: "ProcessClass \<Rightarrow> bool" where
  "exampleIsTransaction c = (c = ''log'' \<or> c = ''coordinator'')"

text \<open>An environment in which every call succeeds, no exclusion is reported yet and
  no process group is a coordinator. IP addresses are kept as their text; the clock
  stands at second 2000 of the Unix epoch.\<close>

definition exampleEnv :: "string env" where
  "exampleEnv =
     \<lparr>String = (\<lambda>a. case IPAddress a of Some ip \<Rightarrow> ip | None \<Rightarrow> StringAddress a),
      ParseIP = Some,
      IsTransaction = exampleIsTransaction,
      GetExclusions = (\<lambda>status. Inr []),
      GetCoordinatorsFromStatus = (\<lambda>status. {}),
      CanSafelyExcludeProcessesWithRecoveryState = (\<lambda>cluster status minimum. None),
      AllProcessesReadyForExclusion = (\<lambda>pending ready wait. Inr ready),
      GetAddressesFromCoordinationState = (\<lambda>allowed useLocalities useAddresses. Inr []),
      ChangeCoordinators = (\<lambda>cluster status. None),
      updateOrApply = (\<lambda>cluster. None),
      timeNow = (\<lambda>c i. Unix 2000),
      rangeOrder = (\<lambda>c. 0)\<rparr>"

definition exampleClients :: "string clients" where
  "exampleClients =
     \<lparr>GetAdminClientWithLogger = None,
      GetStatus = Inr \<lparr>SecondsSinceLastRecovered = 600\<rparr>,
      GetPendingForExclusion = (\<lambda>n prefix. Inr []),
      UpdatePendingForExclusion = (\<lambda>updates. None),
      GetReadyForExclusion = (\<lambda>n prefix. Inr []),
      UpdateReadyForExclusion = (\<lambda>updates. None),
      ExcludeProcessesWithNoWait = (\<lambda>addrs locking. None),
      GetLockClientWithLogger = None,
      TakeLock = None\<rparr>"

definition exampleReconciler :: "string clients \<Rightarrow> string FoundationDBClusterReconciler" where
  "exampleReconciler provider =
     \<lparr>ClusterDatabaseClientProvider = Some provider,
      SimulateTime = False,
      MinimumRecoveryTimeForExclusion = 120,
      GlobalSynchronizationWaitDuration = 60 * Second\<rparr>"

definition exampleGroup :: "ProcessClass \<Rightarrow> string \<Rightarrow> string \<Rightarrow> bool \<Rightarrow> ProcessGroupStatus" where
  "exampleGroup c name address marked =
     \<lparr>ProcessGroupID = name, ProcessClass = c, Addresses = [address],
      IsMarkedForRemoval = marked, IsExcluded = False,
      GetExclusionString = ''locality_instance_id:'' @ name,
      GetConditionTime_MissingProcesses = None\<rparr>"

text \<open>The scenario of the spec: five valid storage processes, five desired, fault
  tolerance 1, no ongoing exclusion, three of the five marked for removal.\<close>

definition scenarioCluster :: FoundationDBCluster where
  "scenarioCluster =
     \<lparr>ProcessGroups =
        [exampleGroup ''storage'' ''storage-1'' ''10.0.0.1'' False,
         exampleGroup ''storage'' ''storage-2'' ''10.0.0.2'' False,
         exampleGroup ''storage'' ''storage-3'' ''10.0.0.3'' True,
         exampleGroup ''storage'' ''storage-4'' ''10.0.0.4'' True,
         exampleGroup ''storage'' ''storage-5'' ''10.0.0.5'' True],
      ProcessGroupIDPrefix = [],
      GetSynchronizationMode = ''local'',
      UseLocalitiesForExclusion = True,
      DesiredFaultTolerance = 1,
      GetProcessCountsWithDefaults = Inr (\<lambda>c. if c = ''storage'' then 5 else 0),
      ShouldUseLocks = False\<rparr>"

text \<open>The other scenario of the spec: the log class has a candidate and no allowed
  exclusion (two valid log processes, three desired), the storage class has a candidate
  and two allowed exclusions (four valid storage processes, three desired).\<close>

definition mixedCluster :: FoundationDBCluster where
  "mixedCluster =
     \<lparr>ProcessGroups =
        [exampleGroup ''storage'' ''storage-1'' ''10.0.0.1'' False,
         exampleGroup ''storage'' ''storage-2'' ''10.0.0.2'' False,
         exampleGroup ''storage'' ''storage-3'' ''10.0.0.3'' False,
         exampleGroup ''storage'' ''storage-4'' ''10.0.0.4'' True,
         exampleGroup ''log'' ''log-1'' ''10.0.1.1'' True,
         exampleGroup ''log'' ''log-2'' ''10.0.1.2'' False],
      ProcessGroupIDPrefix = [],
      GetSynchronizationMode = ''local'',
      UseLocalitiesForExclusion = True,
      DesiredFaultTolerance = 1,
      GetProcessCountsWithDefaults = Inr (\<lambda>c. 3),
      ShouldUseLocks = False\<rparr>"

text \<open>A cluster that excludes by address: \<open>storage-3\<close> has one address, which is
  reported as excluded, \<open>storage-4\<close> has an old address that is reported as excluded
  and a new one that is not.\<close>

definition addressCluster :: FoundationDBCluster where
  "addressCluster =
     \<lparr>ProcessGroups =
        [exampleGroup ''storage'' ''storage-1'' ''10.0.0.1'' False,
         exampleGroup ''storage'' ''storage-3'' ''10.0.0.3'' True,
         (exampleGroup ''storage'' ''storage-4'' ''10.0.0.4'' True)
           \<lparr>Addresses := [''10.0.0.40'', ''10.0.0.4'']\<rparr>],
      ProcessGroupIDPrefix = [],
      GetSynchronizationMode = ''local'',
      UseLocalitiesForExclusion = False,
      DesiredFaultTolerance = 1,
      GetProcessCountsWithDefaults = Inr (\<lambda>c. 1),
      ShouldUseLocks = False\<rparr>"

definition addressExclusions :: "string ProcessAddress list" where
  "addressExclusions =
     [\<lparr>IPAddress = Some ''10.0.0.3'', StringAddress = []\<rparr>,
      \<lparr>IPAddress = Some ''10.0.0.40'', StringAddress = []\<rparr>]"

text \<open>Variants of the example: \<open>storage-3\<close> is a coordinator; the change of
  coordinators fails; the cluster recovered too recently; the exclude call fails.\<close>

definition coordinatorEnv :: "string env" where
  "coordinatorEnv = exampleEnv\<lparr>GetCoordinatorsFromStatus := (\<lambda>status. {''storage-3''})\<rparr>"

definition failingCoordinatorEnv :: "string env" where
  "failingCoordinatorEnv =
     coordinatorEnv\<lparr>ChangeCoordinators := (\<lambda>cluster status. Some ''coordinators not changed'')\<rparr>"

definition recoveringEnv :: "string env" where
  "recoveringEnv =
     exampleEnv
       \<lparr>CanSafelyExcludeProcessesWithRecoveryState :=
          (\<lambda>cluster status minimum.
             if SecondsSinceLastRecovered status < minimum
             then Some ''cluster has recovered too recently'' else None)\<rparr>"

definition failingClients :: "string clients" where
  "failingClients =
     exampleClients\<lparr>ExcludeProcessesWithNoWait := (\<lambda>addrs locking. Some ''timed out'')\<rparr>"

definition localityOf :: "string \<Rightarrow> string ProcessAddress" where
  "localityOf name = \<lparr>IPAddress = None, StringAddress = ''locality_instance_id:'' @ name\<rparr>"

definition entryOf :: "string \<Rightarrow> string excludeEntry" where
  "entryOf name = \<lparr>processGroupID = name, addresses = [localityOf name]\<rparr>"




text \<open>A pass in the global synchronization mode: five valid storage processes, three
  desired, fault tolerance 1, so the loop over the classes allows all three candidates;
  after the lock three process groups are ready for exclusion, the coordination check
  allows the first of them, and its address is the one to exclude.\<close>

definition globalCluster :: FoundationDBCluster where
  "globalCluster =
     scenarioCluster
       \<lparr>GetSynchronizationMode := SynchronizationModeGlobal,
        GetProcessCountsWithDefaults := Inr (\<lambda>c. if c = ''storage'' then 3 else 0)\<rparr>"

definition globalReady :: "(ProcessGroupID \<times> Time) list" where
  "globalReady =
     [(''storage-3'', Unix 1900), (''storage-4'', Unix 1900), (''storage-5'', Unix 1900)]"

definition globalClients :: "string clients" where
  "globalClients =
     exampleClients
       \<lparr>GetReadyForExclusion := (\<lambda>n prefix. if n = 0 then Inr [] else Inr globalReady)\<rparr>"

definition globalEnv :: "string env" where
  "globalEnv =
     exampleEnv
       \<lparr>AllProcessesReadyForExclusion := (\<lambda>pending ready wait. Inr (take 1 ready)),
        GetAddressesFromCoordinationState :=
          (\<lambda>allowed useLocalities useAddresses. Inr (map (\<lambda>entry. localityOf (fst entry)) allowed))\<rparr>"

subsection \<open>Predicates used to state the properties of a pass\<close>

text \<open>The events of a pass up to the loop over the classes, the check of the recovery
  state counting only when it succeeds.\<close>

fun earlyEvent :: "'ip event \<Rightarrow> bool" where
  "earlyEvent EvGetStatus = True"
| "earlyEvent (EvGetPendingForExclusion prefix) = True"
| "earlyEvent (EvUpdatePendingForExclusion updates) = True"
| "earlyEvent (EvCanSafelyExcludeProcessesWithRecoveryState None) = True"
| "earlyEvent (EvGetReadyForExclusion prefix) = True"
| "earlyEvent ev = False"

text \<open>The two messages of the loop over the classes.\<close>

fun logEvent :: "'ip event \<Rightarrow> bool" where
  "logEvent (EvLogWaitingForMissingProcesses c missing entries allowed ongoing) = True"
| "logEvent (EvLogContinuingWithExclusion c missing entries allowed ongoing) = True"
| "logEvent ev = False"

text \<open>The events between the loop over the classes and the exclude call.\<close>

fun quietEvent :: "'ip event \<Rightarrow> bool" where
  "quietEvent (EvGetPendingForExclusion prefix) = True"
| "quietEvent (EvGetReadyForExclusion prefix) = True"
| "quietEvent (EvUpdateReadyForExclusion updates) = True"
| "quietEvent (EvTakeLock err) = True"
| "quietEvent (EvAllProcessesReadyForExclusion pending ready allowed) = True"
| "quietEvent ev = False"

text \<open>The events that tell that a pass leaves candidates behind: the two messages of
  the loop over the classes, and a coordination check that allows fewer process groups
  than are ready.\<close>

fun partialEvent :: "'ip event \<Rightarrow> bool" where
  "partialEvent (EvLogWaitingForMissingProcesses c missing entries allowed ongoing) = True"
| "partialEvent (EvLogContinuingWithExclusion c missing entries allowed ongoing) = True"
| "partialEvent (EvAllProcessesReadyForExclusion pending ready (Inr allowed)) =
     (mapLen allowed \<noteq> mapLen ready)"
| "partialEvent ev = False"

text \<open>The status a pass works on: the one passed in or, when that is nil, the one
  fetched from the admin client.\<close>

definition statusInUse ::
  "'ip FoundationDBClusterReconciler \<Rightarrow> FoundationDBStatus option \<Rightarrow> FoundationDBStatus option" where
  "statusInUse r status =
     (case status of
        Some given \<Rightarrow> Some given
      | None \<Rightarrow>
          (case ClusterDatabaseClientProvider r of
             None \<Rightarrow> None
           | Some provider \<Rightarrow>
               (case GetStatus provider of Inl err \<Rightarrow> None | Inr fetched \<Rightarrow> Some fetched)))"

text \<open>
  The shapes a pass can have once the status \<open>st\<close> is at hand. It ends early, with
  events of the first part only; or the check of the recovery state fails; or the loop
  over the classes is run and no exclude call follows; or the exclude call is made, for
  the addresses \<open>toExclude\<close>.
\<close>

definition endsEarly :: "'ip outcome \<Rightarrow> bool" where
  "endsEarly out = list_all earlyEvent (trace out)"

definition endsAtRecoveryCheck :: "'ip outcome \<Rightarrow> bool" where
  "endsAtRecoveryCheck out =
     (\<exists>pre e. trace out = pre @ [EvCanSafelyExcludeProcessesWithRecoveryState (Some e)]
             \<and> list_all earlyEvent pre
             \<and> result out = Returned (Some (requeueRecoveryState e)))"

definition endsWithoutExclusion :: "'ip env \<Rightarrow> 'ip outcome \<Rightarrow> bool" where
  "endsWithoutExclusion env out =
     (\<exists>pre logs post.
        trace out = pre @ logs @ post
      \<and> list_all earlyEvent pre \<and> list_all logEvent logs \<and> list_all quietEvent post
      \<and> ((\<exists>c missing entries allowed ongoing.
             EvLogWaitingForMissingProcesses c missing entries allowed ongoing \<in> set logs
           \<and> IsTransaction env c)
          \<longrightarrow> post = []
              \<and> (result out = Returned (Some requeueNotAllowed)
                 \<or> result out = Returned (Some requeueTransactionSystem))))"

definition endsWithExclusion ::
  "'ip env \<Rightarrow> 'ip clients \<Rightarrow> FoundationDBCluster \<Rightarrow> FoundationDBStatus \<Rightarrow> 'ip outcome \<Rightarrow> bool" where
  "endsWithExclusion env adminClient cluster st out =
     (\<exists>pre logs post toExclude allExcluded.
        trace out =
          pre @ logs @ post
          @ trace (reconcile_exclude env adminClient cluster st
                     (coordinatorsExclusionString cluster (GetCoordinatorsFromStatus env st))
                     (coordinatorsAddress cluster (GetCoordinatorsFromStatus env st))
                     toExclude allExcluded)
      \<and> result out =
          result (reconcile_exclude env adminClient cluster st
                    (coordinatorsExclusionString cluster (GetCoordinatorsFromStatus env st))
                    (coordinatorsAddress cluster (GetCoordinatorsFromStatus env st))
                    toExclude allExcluded)
      \<and> finalStatus out =
          finalStatus (reconcile_exclude env adminClient cluster st
                    (coordinatorsExclusionString cluster (GetCoordinatorsFromStatus env st))
                    (coordinatorsAddress cluster (GetCoordinatorsFromStatus env st))
                    toExclude allExcluded)
      \<and> list_all earlyEvent pre \<and> list_all logEvent logs \<and> list_all quietEvent post
      \<and> (logs \<noteq> [] \<or> list_ex partialEvent post \<longrightarrow> \<not> allExcluded)
      \<and> (\<forall>c missing entries allowed ongoing.
            EvLogWaitingForMissingProcesses c missing entries allowed ongoing \<in> set logs
            \<longrightarrow> \<not> IsTransaction env c))"

text \<open>The same for the part of a pass that follows the loop over the classes, and what
  the loop over the classes keeps true of its state.\<close>

definition tailShape ::
  "'ip env \<Rightarrow> 'ip clients \<Rightarrow> FoundationDBCluster \<Rightarrow> FoundationDBStatus \<Rightarrow> string set
     \<Rightarrow> string set \<Rightarrow> bool \<Rightarrow> 'ip outcome \<Rightarrow> bool" where
  "tailShape env adminClient cluster st xs as allExcluded out =
     (list_all quietEvent (trace out)
      \<or> (\<exists>post toExclude allExcluded'.
            trace out =
              post @ trace (reconcile_exclude env adminClient cluster st xs as toExclude
                              allExcluded')
          \<and> result out =
              result (reconcile_exclude env adminClient cluster st xs as toExclude
                        allExcluded')
          \<and> finalStatus out =
              finalStatus (reconcile_exclude env adminClient cluster st xs as toExclude
                             allExcluded')
          \<and> list_all quietEvent post
          \<and> (\<not> allExcluded \<or> list_ex partialEvent post \<longrightarrow> \<not> allExcluded')))"

definition classInv :: "'ip env \<Rightarrow> 'ip classState \<Rightarrow> bool" where
  "classInv env st =
     (list_all logEvent (logged st)
      \<and> (logged st \<noteq> [] \<longrightarrow> \<not> allProcessesExcluded st)
      \<and> (\<forall>c missing entries allowed ongoing.
            EvLogWaitingForMissingProcesses c missing entries allowed ongoing
              \<in> set (logged st)
            \<and> IsTransaction env c
            \<longrightarrow> \<not> transactionSystemExclusionAllowed st))"

definition passShape ::
  "'ip env \<Rightarrow> 'ip clients \<Rightarrow> FoundationDBCluster \<Rightarrow> FoundationDBStatus \<Rightarrow> 'ip outcome \<Rightarrow> bool" where
  "passShape env adminClient cluster st out =
     (endsEarly out \<or> endsAtRecoveryCheck out \<or> endsWithoutExclusion env out
      \<or> endsWithExclusion env adminClient cluster st out)"

section \<open>Properties\<close>

subsection \<open>The allowed-exclusion count\<close>

lemma getAllowedExclusions_sint:
  "sint (getAllowedExclusions v d g f) = max 0 (sint (v + f - d - g))"
  by (simp add: getAllowedExclusions_def Let_def max_def)

lemma sint_in_range_goint:
  fixes k :: int
  assumes "- 9223372036854775808 \<le> k" "k < 9223372036854775808"
  shows "sint (word_of_int k :: goint) = k"
  using assms by (simp add: sint_sbintrunc' signed_take_bit_int_eq_self)

lemma sint_sum_goint:
  fixes v d g f :: goint
  assumes "- 9223372036854775808 \<le> sint v + sint f - sint d - sint g"
    and "sint v + sint f - sint d - sint g < 9223372036854775808"
  shows "sint (v + f - d - g) = sint v + sint f - sint d - sint g"
proof -
  have "v + f - d - g = word_of_int (sint v + sint f - sint d - sint g)"
    by simp
  then show ?thesis
    using sint_in_range_goint [OF assms] by simp
qed

text \<open>
  Claim C2 as stated fails. Go's \<^verbatim>\<open>int\<close> wraps around: with \<open>validProcesses\<close> the largest
  \<^verbatim>\<open>int\<close> and a fault tolerance of 1 the sum is \<open>2 ^ 63\<close>, the code computes the
  smallest \<^verbatim>\<open>int\<close> and returns 0; with \<open>validProcesses\<close> the smallest \<^verbatim>\<open>int\<close> and one
  desired process the sum is below 0, the code computes the largest \<^verbatim>\<open>int\<close> and returns
  it.
\<close>

theorem getAllowedExclusions_overflow_counterexample:
  "sint (getAllowedExclusions 9223372036854775807 0 0 1) = 0
   \<and> max 0 (sint (9223372036854775807 :: goint) + sint (1 :: goint) - sint (0 :: goint)
              - sint (0 :: goint)) = 9223372036854775808
   \<and> sint (getAllowedExclusions (- 9223372036854775808) 1 0 0) = 9223372036854775807
   \<and> max 0 (sint (- 9223372036854775808 :: goint) + sint (0 :: goint) - sint (1 :: goint)
              - sint (0 :: goint)) = 0"
  by (simp add: getAllowedExclusions_def)

text \<open>
  Claim C2, as amended. Whenever
  \<open>validProcesses + faultTolerance - desiredProcessCount - ongoingExclusions\<close>, taken over
  the mathematical integers, fits Go's 64-bit \<^verbatim>\<open>int\<close>, the result of
  \<open>getAllowedExclusions\<close> is exactly the larger of 0 and that sum; and for every
  combination of the four inputs the result is never negative.
\<close>

theorem getAllowedExclusions_max_in_range:
  "(- 9223372036854775808 \<le> sint valid + sint tolerance - sint desired - sint ongoing
    \<and> sint valid + sint tolerance - sint desired - sint ongoing < 9223372036854775808
    \<longrightarrow> sint (getAllowedExclusions valid desired ongoing tolerance)
        = max 0 (sint valid + sint tolerance - sint desired - sint ongoing))
   \<and> 0 \<le> sint (getAllowedExclusions valid desired ongoing tolerance)"
  using sint_sum_goint [of valid tolerance desired ongoing]
  by (simp add: getAllowedExclusions_sint)

theorem getAllowedExclusions_max_in_range_witness:
  "sint (getAllowedExclusions 5 5 0 1) = 1
   \<and> sint (getAllowedExclusions 3 5 1 1) = 0
   \<and> 0 \<le> sint (getAllowedExclusions 3 5 1 1)"
  using getAllowedExclusions_max_in_range [of 5 1 5 0]
    getAllowedExclusions_max_in_range [of 3 1 5 1]
  by simp

subsection \<open>The database client provider\<close>

text \<open>
  Claim C8. When no \<open>DatabaseClientProvider\<close> is configured (the field is nil),
  \<open>getDatabaseClientProvider\<close> panics: it neither returns a provider nor an error value.
  When a provider is configured, it returns that provider unchanged.
\<close>

theorem getDatabaseClientProvider_panics_or_returns:
  "(DatabaseClientProvider r = None \<longrightarrow>
      getDatabaseClientProvider r
        = Inl (Panic ''Backup reconciler does not have a DatabaseClientProvider defined''))
   \<and> (\<forall>p. DatabaseClientProvider r = Some p \<longrightarrow> getDatabaseClientProvider r = Inr p)"
  by (simp add: getDatabaseClientProvider_def)

theorem getDatabaseClientProvider_witness:
  "getDatabaseClientProvider
      \<lparr>InSimulation = False, DatabaseClientProvider = (None :: nat option),
       ServerSideApply = False\<rparr>
     = Inl (Panic ''Backup reconciler does not have a DatabaseClientProvider defined'')
   \<and> getDatabaseClientProvider
      \<lparr>InSimulation = False, DatabaseClientProvider = Some (7 :: nat),
       ServerSideApply = False\<rparr> = Inr 7"
  using getDatabaseClientProvider_panics_or_returns
          [of "\<lparr>InSimulation = False, DatabaseClientProvider = (None :: nat option),
                ServerSideApply = False\<rparr>"]
        getDatabaseClientProvider_panics_or_returns
          [of "\<lparr>InSimulation = False, DatabaseClientProvider = Some (7 :: nat),
                ServerSideApply = False\<rparr>"]
  by simp

subsection \<open>The missing-process loop\<close>

lemma missingLoop_simulation:
  "missingLoop now pc True i pgs st =
     st\<lparr>validProcesses := validProcesses st + of_nat (length (filter (counted pc) pgs))\<rparr>"
  by (induction pgs arbitrary: i st) (auto simp: counted_def split: option.splits)

lemma missingLoop_missing:
  "missingProcesses (missingLoop now pc False i pgs st) =
     missingProcesses st @ map ProcessGroupID
       (filter (\<lambda>pg. counted pc pg \<and> GetConditionTime_MissingProcesses pg \<noteq> None) pgs)"
  by (induction pgs arbitrary: i st) (auto simp: counted_def split: option.splits)

lemma missingLoop_valid:
  "validProcesses (missingLoop now pc False i pgs st) =
     validProcesses st + of_nat (length
       (filter (\<lambda>pg. counted pc pg \<and> GetConditionTime_MissingProcesses pg = None) pgs))"
  by (induction pgs arbitrary: i st) (auto simp: counted_def split: option.splits)

lemma missingLoop_allowed:
  "exclusionsAllowed (missingLoop now pc False i pgs st) =
     (exclusionsAllowed st \<and> \<not> (\<exists>j<length pgs. blocks pc (now (i + j)) (pgs ! j)))"
proof (induction pgs arbitrary: i st)
  case Nil
  then show ?case by simp
next
  case (Cons pg pgs)
  have ex: "(\<exists>j<length (pg # pgs). blocks pc (now (i + j)) ((pg # pgs) ! j)) =
        (blocks pc (now i) pg \<or> (\<exists>j<length pgs. blocks pc (now (Suc i + j)) (pgs ! j)))"
    by (auto simp: less_Suc_eq_0_disj)
  show ?case
    unfolding ex
    by (auto simp: Cons.IH blocks_def counted_def split: option.splits)
qed


subsection \<open>The age of a MissingProcesses condition\<close>

text \<open>The age of a condition is what \<^verbatim>\<open>time.Since\<close> gives for \<^verbatim>\<open>time.Unix\<close> of its
  timestamp. For two Unix timestamps that \<^verbatim>\<open>time.Unix\<close> does not wrap around and that are
  less than about 292 years apart this is their difference.\<close>

lemma quot_mult: "quot (D * 1000000000) 1000000000 = D"
  by (simp add: quot_def abs_mult sgn_mult mult_sgn_abs)

lemma rem_mult: "rem (D * 1000000000) 1000000000 = 0"
  by (simp add: rem_def quot_mult)

lemma Since_Unix:
  fixes s t :: "64 word"
  assumes "sint s \<le> 9223371974719179007" and "sint t \<le> 9223371974719179007"
    and "- 9223372036 \<le> sint t - sint s" and "sint t - sint s \<le> 9223372036"
  shows "Since (Unix t) (Unix s) = (sint t - sint s) * Second"
proof -
  define D where "D = sint t - sint s"
  have ts: "t - s = word_of_int D"
    by (simp add: D_def)
  have sD: "sint (t - s) = D"
    unfolding ts using assms(3,4) by (intro sint_in_range_goint) (simp_all add: D_def)
  have d: "(t - s) * 1000000000 = (word_of_int (D * 1000000000) :: 64 word)"
    by (simp add: ts)
  have sd: "sint ((t - s) * 1000000000) = D * 1000000000"
    unfolding d using assms(3,4) by (intro sint_in_range_goint) (simp_all add: D_def)
  have ss: "sint (s + 62135596800) = sint s + 62135596800"
  proof -
    have "s + 62135596800 = word_of_int (sint s + 62135596800)"
      by simp
    moreover have "- 9223372036854775808 \<le> sint s"
      using sint_ge [of s] by simp
    ultimately show ?thesis
      using sint_in_range_goint [of "sint s + 62135596800"] assms(1) by simp
  qed
  have st: "sint (t + 62135596800) = sint t + 62135596800"
  proof -
    have "t + 62135596800 = word_of_int (sint t + 62135596800)"
      by simp
    moreover have "- 9223372036854775808 \<le> sint t"
      using sint_ge [of t] by simp
    ultimately show ?thesis
      using sint_in_range_goint [of "sint t + 62135596800"] assms(2) by simp
  qed
  define d where "d = (t - s) * 1000000000"
  have sd': "sint d = D * 1000000000"
    by (simp only: d_def sd)
  have sum: "s + 62135596800 + (t - s) = t + 62135596800"
    by simp
  have "Add (Unix s) d = addSec (Unix s) (word_of_int D)"
    by (simp add: Add_def Let_def sd' quot_mult rem_mult Unix_def)
  also have "\<dots> = addSec (Unix s) (t - s)"
    by (simp only: ts)
  also have "\<dots> = Unix t"
    unfolding addSec_def Unix_def unixToInternal_def Let_def
    using sD ss st by (simp add: sum D_def)
  finally have add: "Add (Unix s) d = Unix t" .
  have "Sub (Unix t) (Unix s) = sint d"
  proof -
    have "(sec (Unix t) - sec (Unix s)) * 1000000000
            + (scast (nsec (Unix t) - nsec (Unix s)) :: 64 word) = d"
      by (simp add: Unix_def d_def)
    then show ?thesis
      unfolding Sub_def Let_def by (simp only: add Equal_def) simp
  qed
  then show ?thesis
    by (simp add: Since_def sd' D_def Second_def)
qed

text \<open>Beyond that the library saturates and wraps around: at second 2000 a timestamp of
  9223371974719179007 lies in the future and its age is the smallest duration, the
  timestamp after it is taken by \<^verbatim>\<open>time.Unix\<close> for a time before year 1 and its age is the
  largest duration, so that a process group with that timestamp does not block.\<close>

lemma Since_saturates:
  "Since (Unix 2000) (Unix 9223371974719179007) = minDuration
   \<and> Since (Unix 2000) (Unix 9223371974719179008) = maxDuration"
  by code_simp

lemma wrapped_timestamp_does_not_block:
  "\<not> blocks ''storage'' (Unix 2000)
       \<lparr>ProcessGroupID = ''storage-3'', ProcessClass = ''storage'', Addresses = [],
        IsMarkedForRemoval = False, IsExcluded = False, GetExclusionString = [],
        GetConditionTime_MissingProcesses = Some 9223371974719179008\<rparr>"
  using Since_saturates
  by (simp add: blocks_def counted_def IgnoreMissingProcessDuration_def maxDuration_def
        Minute_def Second_def)

text \<open>
  Claim C3, as amended. The age of a MissingProcesses condition is \<^verbatim>\<open>time.Since\<close> of
  \<^verbatim>\<open>time.Unix\<close> of its timestamp, at the clock reading taken for its process group.
  Outside simulation mode: if at least one process group of the class that is not both
  marked for removal and excluded carries a MissingProcesses condition less than 5
  minutes old, then the allowed exclusions for the class are 0. If every such condition is at least 5
  minutes old, nothing blocks, and the result is \<open>getAllowedExclusions\<close> of the number of
  groups of the class that are not both marked for removal and excluded and carry no
  MissingProcesses condition: a group missing for longer is not among the valid processes.
\<close>

theorem missing_grace_window:
  "((\<exists>i<length (ProcessGroups cluster). \<exists>ts.
        ProcessClass (ProcessGroups cluster ! i) = processClass
      \<and> \<not> (IsMarkedForRemoval (ProcessGroups cluster ! i)
            \<and> IsExcluded (ProcessGroups cluster ! i))
      \<and> GetConditionTime_MissingProcesses (ProcessGroups cluster ! i) = Some ts
      \<and> Since (now i) (Unix ts) < 5 * Minute)
    \<longrightarrow> fst (getAllowedExclusionsAndMissingProcesses now cluster processClass desired ongoing
               False) = 0)
   \<and> ((\<forall>i<length (ProcessGroups cluster). \<forall>ts.
        ProcessClass (ProcessGroups cluster ! i) = processClass
      \<and> \<not> (IsMarkedForRemoval (ProcessGroups cluster ! i)
            \<and> IsExcluded (ProcessGroups cluster ! i))
      \<and> GetConditionTime_MissingProcesses (ProcessGroups cluster ! i) = Some ts
      \<longrightarrow> 5 * Minute \<le> Since (now i) (Unix ts))
    \<longrightarrow> fst (getAllowedExclusionsAndMissingProcesses now cluster processClass desired ongoing
               False)
        = getAllowedExclusions
            (len (filter (\<lambda>pg. ProcessClass pg = processClass
                             \<and> \<not> (IsMarkedForRemoval pg \<and> IsExcluded pg)
                             \<and> GetConditionTime_MissingProcesses pg = None)
                    (ProcessGroups cluster)))
            desired ongoing (DesiredFaultTolerance cluster))"
proof -
  let ?st = "missingLoop now processClass False 0 (ProcessGroups cluster) missingInit"
  have allowed: "exclusionsAllowed ?st =
      (\<not> (\<exists>j<length (ProcessGroups cluster). blocks processClass (now j) (ProcessGroups cluster ! j)))"
    by (simp add: missingLoop_allowed missingInit_def)
  have valid: "validProcesses ?st = len (filter (\<lambda>pg. ProcessClass pg = processClass
                             \<and> \<not> (IsMarkedForRemoval pg \<and> IsExcluded pg)
                             \<and> GetConditionTime_MissingProcesses pg = None)
                    (ProcessGroups cluster))"
    by (simp add: missingLoop_valid missingInit_def len_def counted_def)
  show ?thesis
  proof (intro conjI impI)
    assume "\<exists>i<length (ProcessGroups cluster). \<exists>ts.
        ProcessClass (ProcessGroups cluster ! i) = processClass
      \<and> \<not> (IsMarkedForRemoval (ProcessGroups cluster ! i)
            \<and> IsExcluded (ProcessGroups cluster ! i))
      \<and> GetConditionTime_MissingProcesses (ProcessGroups cluster ! i) = Some ts
      \<and> Since (now i) (Unix ts) < 5 * Minute"
    then have "\<exists>j<length (ProcessGroups cluster). blocks processClass (now j) (ProcessGroups cluster ! j)"
      by (auto simp: blocks_def counted_def IgnoreMissingProcessDuration_def)
    then have "\<not> exclusionsAllowed ?st"
      using allowed by simp
    then show "fst (getAllowedExclusionsAndMissingProcesses now cluster processClass desired ongoing
               False) = 0"
      by (simp add: getAllowedExclusionsAndMissingProcesses_def Let_def)
  next
    assume old: "\<forall>i<length (ProcessGroups cluster). \<forall>ts.
        ProcessClass (ProcessGroups cluster ! i) = processClass
      \<and> \<not> (IsMarkedForRemoval (ProcessGroups cluster ! i)
            \<and> IsExcluded (ProcessGroups cluster ! i))
      \<and> GetConditionTime_MissingProcesses (ProcessGroups cluster ! i) = Some ts
      \<longrightarrow> 5 * Minute \<le> Since (now i) (Unix ts)"
    have "\<not> (\<exists>j<length (ProcessGroups cluster). blocks processClass (now j) (ProcessGroups cluster ! j))"
      using old
      by (fastforce simp: blocks_def counted_def IgnoreMissingProcessDuration_def
            split: option.splits)
    then have "exclusionsAllowed ?st"
      using allowed by simp
    then show "fst (getAllowedExclusionsAndMissingProcesses now cluster processClass desired ongoing
               False)
        = getAllowedExclusions
            (len (filter (\<lambda>pg. ProcessClass pg = processClass
                             \<and> \<not> (IsMarkedForRemoval pg \<and> IsExcluded pg)
                             \<and> GetConditionTime_MissingProcesses pg = None)
                    (ProcessGroups cluster)))
            desired ongoing (DesiredFaultTolerance cluster)"
      using valid by (simp add: getAllowedExclusionsAndMissingProcesses_def Let_def)
  qed
qed

text \<open>At second 1060 a condition set at second 1000 is one minute old.\<close>

lemma Since_1060: "Since (Unix 1060) (Unix 1000) = 60 * Second"
  by code_simp

text \<open>
  Claim C3 as stated fails: the third group of \<open>recentlyMissingCluster\<close> is of class
  storage and its MissingProcesses condition is one minute old, yet one exclusion is
  allowed for storage, since the loop skips a group that is marked for removal and
  excluded before it looks at the condition.
\<close>

theorem missing_excluded_group_counterexample:
  "ProcessClass (ProcessGroups recentlyMissingCluster ! 2) = ''storage''
   \<and> GetConditionTime_MissingProcesses (ProcessGroups recentlyMissingCluster ! 2) = Some 1000
   \<and> Since (Unix 1060) (Unix 1000) < 5 * Minute
   \<and> fst (getAllowedExclusionsAndMissingProcesses (\<lambda>i. Unix 1060) recentlyMissingCluster
            ''storage'' 2 0 False) = 1"
  using Since_1060
  by (simp add: recentlyMissingCluster_def getAllowedExclusionsAndMissingProcesses_def
        missingInit_def getAllowedExclusions_def IgnoreMissingProcessDuration_def
        Minute_def Second_def)

lemma Since_2000: "Since (Unix 2000) (Unix 1000) = 1000 * Second"
  by code_simp

theorem missing_grace_window_witness:
  "fst (getAllowedExclusionsAndMissingProcesses (\<lambda>i. Unix 1060) graceCluster
          ''storage'' 2 0 False) = 0
   \<and> fst (getAllowedExclusionsAndMissingProcesses (\<lambda>i. Unix 2000) graceCluster
          ''storage'' 2 0 False) = 2"
proof -
  have recent: "\<exists>i<length (ProcessGroups graceCluster). \<exists>ts.
        ProcessClass (ProcessGroups graceCluster ! i) = ''storage''
      \<and> \<not> (IsMarkedForRemoval (ProcessGroups graceCluster ! i)
            \<and> IsExcluded (ProcessGroups graceCluster ! i))
      \<and> GetConditionTime_MissingProcesses (ProcessGroups graceCluster ! i) = Some ts
      \<and> Since ((\<lambda>i. Unix 1060) i) (Unix ts) < 5 * Minute"
    using Since_1060
    by (intro exI [of _ 2] exI [of _ 1000]) (simp add: graceCluster_def Minute_def Second_def)
  have "list_all (\<lambda>pg. \<forall>ts.
        ProcessClass pg = ''storage''
      \<and> \<not> (IsMarkedForRemoval pg \<and> IsExcluded pg)
      \<and> GetConditionTime_MissingProcesses pg = Some ts
      \<longrightarrow> 5 * Minute \<le> Since (Unix 2000) (Unix ts)) (ProcessGroups graceCluster)"
    using Since_2000 by (simp add: graceCluster_def Minute_def Second_def)
  then have old: "\<forall>i<length (ProcessGroups graceCluster). \<forall>ts.
        ProcessClass (ProcessGroups graceCluster ! i) = ''storage''
      \<and> \<not> (IsMarkedForRemoval (ProcessGroups graceCluster ! i)
            \<and> IsExcluded (ProcessGroups graceCluster ! i))
      \<and> GetConditionTime_MissingProcesses (ProcessGroups graceCluster ! i) = Some ts
      \<longrightarrow> 5 * Minute \<le> Since ((\<lambda>i. Unix 2000) i) (Unix ts)"
    unfolding list_all_length by simp
  have valid: "getAllowedExclusions
            (len (filter (\<lambda>pg. ProcessClass pg = ''storage''
                             \<and> \<not> (IsMarkedForRemoval pg \<and> IsExcluded pg)
                             \<and> GetConditionTime_MissingProcesses pg = None)
                    (ProcessGroups graceCluster)))
            2 0 (DesiredFaultTolerance graceCluster) = 2"
    by (simp add: graceCluster_def len_def getAllowedExclusions_def)
  show ?thesis
    using missing_grace_window [of graceCluster "''storage''" "\<lambda>i. Unix 1060" 2 0]
      missing_grace_window [of graceCluster "''storage''" "\<lambda>i. Unix 2000" 2 0]
      recent old valid
    by simp
qed

text \<open>
  Claim C9. In simulation mode the MissingProcesses conditions are not looked at: the
  loop never clears \<open>exclusionsAllowed\<close>, every process group of the class that is not
  both marked for removal and excluded is counted in \<open>validProcesses\<close>, the list of
  missing processes that is returned is empty, and the allowed exclusions are
  \<open>getAllowedExclusions\<close> of that count.
\<close>

theorem simulation_ignores_missing:
  "exclusionsAllowed
     (missingLoop now processClass True 0 (ProcessGroups cluster) missingInit)
   \<and> validProcesses
       (missingLoop now processClass True 0 (ProcessGroups cluster) missingInit)
     = len (filter (\<lambda>pg. ProcessClass pg = processClass
                        \<and> \<not> (IsMarkedForRemoval pg \<and> IsExcluded pg))
              (ProcessGroups cluster))
   \<and> getAllowedExclusionsAndMissingProcesses now cluster processClass desired ongoing True
     = (getAllowedExclusions
          (len (filter (\<lambda>pg. ProcessClass pg = processClass
                           \<and> \<not> (IsMarkedForRemoval pg \<and> IsExcluded pg))
                  (ProcessGroups cluster)))
          desired ongoing (DesiredFaultTolerance cluster),
        [])"
proof -
  have "(\<lambda>pg. ProcessClass pg = processClass \<and> \<not> (IsMarkedForRemoval pg \<and> IsExcluded pg))
          = counted processClass"
    by (simp add: counted_def fun_eq_iff)
  then show ?thesis
    by (simp add: missingLoop_simulation getAllowedExclusionsAndMissingProcesses_def
          missingInit_def len_def)
qed

theorem simulation_ignores_missing_witness:
  "getAllowedExclusionsAndMissingProcesses (\<lambda>i. Unix 1060) graceCluster ''storage'' 2 0
     True = (3, [])"
proof -
  have "getAllowedExclusions
          (len (filter (\<lambda>pg. ProcessClass pg = ''storage''
                           \<and> \<not> (IsMarkedForRemoval pg \<and> IsExcluded pg))
                  (ProcessGroups graceCluster)))
          2 0 (DesiredFaultTolerance graceCluster) = 3"
    by (simp add: graceCluster_def len_def getAllowedExclusions_def)
  then show ?thesis
    using simulation_ignores_missing [of "\<lambda>i. Unix 1060" "''storage''" graceCluster 2 0]
    by simp
qed

subsection \<open>The candidates for exclusion\<close>

lemma entriesOf_appendEntry:
  "entriesOf (appendEntry m c e) c' = (if c' = c then entriesOf m c @ [e] else entriesOf m c')"
  by (simp add: entriesOf_def appendEntry_def update_conv')

lemma addressLoop_eq:
  "addressLoop env cur as (b, acc) =
     (b \<and> (\<forall>a\<in>set as. a \<in> cur),
      acc @ map (\<lambda>a. \<lparr>IPAddress = ParseIP env a, StringAddress = []\<rparr>)
              (filter (\<lambda>a. a \<notin> cur) as))"
  by (induction as arbitrary: b acc) auto

lemma excludeStep_candidates:
  assumes inv: "\<And>c e. e \<in> set (entriesOf (fdbProcessesToExcludeByClass st) c)
                  \<Longrightarrow> \<exists>pg\<in>S. candidateOf env cur cluster c e pg"
    and pg: "processGroup \<in> S"
    and e: "e \<in> set (entriesOf (fdbProcessesToExcludeByClass
                (excludeStep env cur cluster pending processGroup st)) c)"
  shows "\<exists>pg\<in>S. candidateOf env cur cluster c e pg"
proof (cases "e \<in> set (entriesOf (fdbProcessesToExcludeByClass st) c)")
  case True
  then show ?thesis by (rule inv)
next
  case False
  with e have "candidateOf env cur cluster c e processGroup"
    by (auto simp: excludeStep_def Let_def entriesOf_appendEntry addressLoop_eq
          candidateOf_def split: if_splits)
  with pg show ?thesis by blast
qed

lemma excludeLoop_candidates:
  assumes "\<And>c e. e \<in> set (entriesOf (fdbProcessesToExcludeByClass st) c)
                  \<Longrightarrow> \<exists>pg\<in>S. candidateOf env cur cluster c e pg"
    and "set pgs \<subseteq> S"
    and "e \<in> set (entriesOf (fdbProcessesToExcludeByClass
                (excludeLoop env cur cluster pending pgs st)) c)"
  shows "\<exists>pg\<in>S. candidateOf env cur cluster c e pg"
  using assms
proof (induction pgs arbitrary: st)
  case Nil
  then show ?case by simp
next
  case (Cons pg pgs)
  have step: "\<And>c e. e \<in> set (entriesOf (fdbProcessesToExcludeByClass
                (excludeStep env cur cluster pending pg st)) c)
                  \<Longrightarrow> \<exists>pg\<in>S. candidateOf env cur cluster c e pg"
    using excludeStep_candidates [of st S env cur cluster pg] Cons.prems(1,2) by simp
  show ?case
    using Cons.IH [OF step] Cons.prems(2,3) by simp
qed

text \<open>
  Claim C4. Every entry of the candidate set that \<open>getProcessesToExclude\<close> computes,
  under whatever class it is filed, stems from a process group of the cluster status
  with the entry's ID and that class which is marked for removal, is not flagged
  excluded, and whose exclusion string is not among the exclusions the cluster reports.
  With localities the entry's only address is that exclusion string; otherwise its
  addresses are those of the group's addresses that are not among the reported
  exclusions, and there is at least one.
\<close>

theorem getProcessesToExclude_candidates:
  "\<forall>e\<in>set (entriesOf (fdbProcessesToExcludeByClass
               (getProcessesToExclude env exclusions cluster pendingExclusions updatePending))
             c).
     \<exists>pg\<in>set (ProcessGroups cluster).
       ProcessGroupID pg = processGroupID e
       \<and> ProcessClass pg = c
       \<and> IsMarkedForRemoval pg
       \<and> \<not> IsExcluded pg
       \<and> GetExclusionString pg \<notin> String env ` set exclusions
       \<and> (if UseLocalitiesForExclusion cluster
          then addresses e = [\<lparr>IPAddress = None, StringAddress = GetExclusionString pg\<rparr>]
          else addresses e \<noteq> []
               \<and> addresses e =
                   map (\<lambda>a. \<lparr>IPAddress = ParseIP env a, StringAddress = []\<rparr>)
                     (filter (\<lambda>a. a \<notin> String env ` set exclusions) (Addresses pg)))"
proof
  fix e
  assume "e \<in> set (entriesOf (fdbProcessesToExcludeByClass
               (getProcessesToExclude env exclusions cluster pendingExclusions updatePending))
             c)"
  then have "\<exists>pg\<in>set (ProcessGroups cluster).
      candidateOf env (String env ` set exclusions) cluster c e pg"
    unfolding getProcessesToExclude_def Let_def set_map
    by (rule excludeLoop_candidates [rotated 2]) (simp_all add: entriesOf_def)
  then show "\<exists>pg\<in>set (ProcessGroups cluster).
       ProcessGroupID pg = processGroupID e
       \<and> ProcessClass pg = c
       \<and> IsMarkedForRemoval pg
       \<and> \<not> IsExcluded pg
       \<and> GetExclusionString pg \<notin> String env ` set exclusions
       \<and> (if UseLocalitiesForExclusion cluster
          then addresses e = [\<lparr>IPAddress = None, StringAddress = GetExclusionString pg\<rparr>]
          else addresses e \<noteq> []
               \<and> addresses e =
                   map (\<lambda>a. \<lparr>IPAddress = ParseIP env a, StringAddress = []\<rparr>)
                     (filter (\<lambda>a. a \<notin> String env ` set exclusions) (Addresses pg)))"
    unfolding candidateOf_def by blast
qed

subsection \<open>The pass after the loop over the classes\<close>

lemma trace_finish [simp]: "trace (finish res st) = []"
  by (simp add: finish_def)

lemma result_finish [simp]: "result (finish res st) = res"
  by (simp add: finish_def)

lemma finalStatus_finish [simp]: "finalStatus (finish res st) = st"
  by (simp add: finish_def)

lemma trace_after [simp]: "trace (after evs out) = evs @ trace out"
  by (simp add: after_def)

lemma result_after [simp]: "result (after evs out) = result out"
  by (simp add: after_def)

lemma finalStatus_after [simp]: "finalStatus (after evs out) = finalStatus out"
  by (simp add: after_def)

lemma reconcile_end_trace [simp]: "trace (reconcile_end allExcluded status) = []"
  by (simp add: reconcile_end_def)

lemma reconcile_end_status [simp]:
  "finalStatus (reconcile_end allExcluded status) = Some status"
  by (simp add: reconcile_end_def)

lemma reconcile_coordinators_status [simp]:
  "finalStatus (reconcile_coordinators env cluster status xs as toExclude allExcluded)
     = Some status"
  by (simp add: reconcile_coordinators_def split: option.splits)

lemma reconcile_coordinators_late:
  "ev \<in> set (trace (reconcile_coordinators env cluster status xs as toExclude allExcluded))
     \<Longrightarrow> (\<exists>err. ev = EvChangeCoordinators err) \<or> (\<exists>err. ev = EvUpdateOrApply err)"
  by (auto simp: reconcile_coordinators_def split: if_splits option.splits)


lemma reconcile_coordinators_requeue:
  assumes "\<not> allExcluded"
    and "\<forall>e. EvChangeCoordinators (Some e)
            \<notin> set (trace (reconcile_coordinators env cluster status xs as toExclude
                            allExcluded))"
    and "\<forall>e. EvUpdateOrApply (Some e)
            \<notin> set (trace (reconcile_coordinators env cluster status xs as toExclude
                            allExcluded))"
  shows "result (reconcile_coordinators env cluster status xs as toExclude allExcluded)
           = Returned (Some requeueAdditional)"
  using assms
  by (auto simp: reconcile_coordinators_def reconcile_end_def
        split: if_splits option.splits)

text \<open>The part of a pass that starts with the exclude call: its trace begins with the
  event and the call, and it leaves the recovery counter at 0.\<close>

lemma reconcile_exclude_trace:
  "trace (reconcile_exclude env adminClient cluster status xs as toExclude allExcluded) =
     EvRecorderEvent toExclude
     # EvExcludeProcessesWithNoWait toExclude True
         (ExcludeProcessesWithNoWait adminClient toExclude True)
     # (case ExcludeProcessesWithNoWait adminClient toExclude True of
          Some e \<Rightarrow> []
        | None \<Rightarrow>
            trace (reconcile_coordinators env cluster
                     (status\<lparr>SecondsSinceLastRecovered := 0\<rparr>) xs as toExclude allExcluded))"
  by (simp add: reconcile_exclude_def Let_def split: option.splits)

lemma reconcile_exclude_status:
  "finalStatus (reconcile_exclude env adminClient cluster status xs as toExclude allExcluded)
     = Some (status\<lparr>SecondsSinceLastRecovered := 0\<rparr>)"
  by (simp add: reconcile_exclude_def Let_def split: option.splits)

lemma reconcile_exclude_result:
  "ExcludeProcessesWithNoWait adminClient toExclude True = None \<Longrightarrow>
   result (reconcile_exclude env adminClient cluster status xs as toExclude allExcluded)
     = result (reconcile_coordinators env cluster
                 (status\<lparr>SecondsSinceLastRecovered := 0\<rparr>) xs as toExclude allExcluded)"
  by (simp add: reconcile_exclude_def Let_def)

lemma reconcile_exclude_events:
  "ev \<in> set (trace (reconcile_exclude env adminClient cluster status xs as toExclude
                      allExcluded))
     \<Longrightarrow> ev = EvRecorderEvent toExclude
         \<or> ev = EvExcludeProcessesWithNoWait toExclude True
                  (ExcludeProcessesWithNoWait adminClient toExclude True)
         \<or> (\<exists>err. ev = EvChangeCoordinators err) \<or> (\<exists>err. ev = EvUpdateOrApply err)"
  by (auto simp: reconcile_exclude_trace split: option.splits
        dest!: reconcile_coordinators_late)

lemma reconcile_exclude_issued:
  assumes "EvExcludeProcessesWithNoWait addrs locking err
             \<in> set (trace (reconcile_exclude env adminClient cluster status xs as toExclude
                             allExcluded))"
  shows "addrs = toExclude \<and> locking
         \<and> err = ExcludeProcessesWithNoWait adminClient toExclude True"
  using reconcile_exclude_events [OF assms] by auto


lemma reconcile_exclude_requeue:
  assumes "ExcludeProcessesWithNoWait adminClient toExclude True = None"
    and "\<not> allExcluded"
    and "\<forall>e. EvChangeCoordinators (Some e)
            \<notin> set (trace (reconcile_exclude env adminClient cluster status xs as toExclude
                            allExcluded))"
    and "\<forall>e. EvUpdateOrApply (Some e)
            \<notin> set (trace (reconcile_exclude env adminClient cluster status xs as toExclude
                            allExcluded))"
  shows "result (reconcile_exclude env adminClient cluster status xs as toExclude allExcluded)
           = Returned (Some requeueAdditional)"
  using assms
  by (simp add: reconcile_exclude_result reconcile_exclude_trace
        reconcile_coordinators_requeue)

subsection \<open>The shape of the pass after the loop over the classes\<close>

lemma tailShape_quiet:
  "list_all quietEvent (trace out) \<Longrightarrow> tailShape env adminClient cluster st xs as allExcluded out"
  by (simp add: tailShape_def)

lemma tailShape_finish: "tailShape env adminClient cluster st xs as allExcluded (finish res s)"
  by (simp add: tailShape_quiet)

lemma tailShape_exclusion:
  assumes "list_all quietEvent post"
    and "\<not> allExcluded \<or> list_ex partialEvent post \<longrightarrow> \<not> allExcluded'"
  shows "tailShape env adminClient cluster st xs as allExcluded
           (after post
              (reconcile_exclude env adminClient cluster st xs as toExclude allExcluded'))"
proof -
  let ?E = "reconcile_exclude env adminClient cluster st xs as toExclude allExcluded'"
  from assms have "trace (after post ?E) = post @ trace ?E
      \<and> result (after post ?E) = result ?E
      \<and> finalStatus (after post ?E) = finalStatus ?E \<and> list_all quietEvent post
      \<and> (\<not> allExcluded \<or> list_ex partialEvent post \<longrightarrow> \<not> allExcluded')"
    by simp
  then show ?thesis
    unfolding tailShape_def by blast
qed

lemma after_Nil: "after [] out = out"
  by (simp add: after_def)

lemma after_after: "after evs (after evs' out) = after (evs @ evs') out"
  by (simp add: after_def)

lemma tailShape_exclude:
  assumes "\<not> allExcluded \<longrightarrow> \<not> allExcluded'"
  shows "tailShape env adminClient cluster st xs as allExcluded
           (reconcile_exclude env adminClient cluster st xs as toExclude allExcluded')"
  using tailShape_exclusion [of "[]" allExcluded allExcluded' env adminClient cluster st xs as
      toExclude] assms
  by (simp add: after_Nil)

lemma tailShape_after:
  assumes "list_all quietEvent evs" and "\<not> list_ex partialEvent evs"
    and "tailShape env adminClient cluster st xs as allExcluded out"
  shows "tailShape env adminClient cluster st xs as allExcluded (after evs out)"
  using assms(3) unfolding tailShape_def
proof (elim disjE exE conjE)
  assume "list_all quietEvent (trace out)"
  with assms(1) have "list_all quietEvent (trace (after evs out))"
    by simp
  then show "list_all quietEvent (trace (after evs out))
      \<or> (\<exists>post toExclude allExcluded'.
            trace (after evs out) =
              post @ trace (reconcile_exclude env adminClient cluster st xs as toExclude
                              allExcluded')
          \<and> result (after evs out) =
              result (reconcile_exclude env adminClient cluster st xs as toExclude
                        allExcluded')
          \<and> finalStatus (after evs out) =
              finalStatus (reconcile_exclude env adminClient cluster st xs as toExclude
                             allExcluded')
          \<and> list_all quietEvent post
          \<and> (\<not> allExcluded \<or> list_ex partialEvent post \<longrightarrow> \<not> allExcluded'))"
    by (rule disjI1)
next
  fix post toExclude allExcluded'
  assume "trace out =
              post @ trace (reconcile_exclude env adminClient cluster st xs as toExclude
                              allExcluded')"
    "result out =
              result (reconcile_exclude env adminClient cluster st xs as toExclude
                        allExcluded')"
    "finalStatus out =
              finalStatus (reconcile_exclude env adminClient cluster st xs as toExclude
                             allExcluded')"
    "list_all quietEvent post"
    "\<not> allExcluded \<or> list_ex partialEvent post \<longrightarrow> \<not> allExcluded'"
  with assms(1,2) have "trace (after evs out) =
              (evs @ post) @ trace (reconcile_exclude env adminClient cluster st xs as toExclude
                              allExcluded')
          \<and> result (after evs out) =
              result (reconcile_exclude env adminClient cluster st xs as toExclude
                        allExcluded')
          \<and> finalStatus (after evs out) =
              finalStatus (reconcile_exclude env adminClient cluster st xs as toExclude
                             allExcluded')
          \<and> list_all quietEvent (evs @ post)
          \<and> (\<not> allExcluded \<or> list_ex partialEvent (evs @ post) \<longrightarrow> \<not> allExcluded')"
    by simp
  then show "list_all quietEvent (trace (after evs out))
      \<or> (\<exists>post toExclude allExcluded'.
            trace (after evs out) =
              post @ trace (reconcile_exclude env adminClient cluster st xs as toExclude
                              allExcluded')
          \<and> result (after evs out) =
              result (reconcile_exclude env adminClient cluster st xs as toExclude
                        allExcluded')
          \<and> finalStatus (after evs out) =
              finalStatus (reconcile_exclude env adminClient cluster st xs as toExclude
                             allExcluded')
          \<and> list_all quietEvent post
          \<and> (\<not> allExcluded \<or> list_ex partialEvent post \<longrightarrow> \<not> allExcluded'))"
    by blast
qed

text \<open>The coordination check of the global mode: when it allows fewer process groups
  than are ready, the exclusion that follows is one that leaves candidates behind.\<close>

lemma tailShape_check:
  "tailShape env adminClient cluster st xs as allExcluded
     (after [EvAllProcessesReadyForExclusion pending ready (Inr allowed)]
        (reconcile_exclude env adminClient cluster st xs as toExclude
           (if mapLen allowed \<noteq> mapLen ready then False else allExcluded)))"
  by (rule tailShape_exclusion) simp_all

lemma tailShape_global:
  "tailShape env adminClient cluster st xs as allExcluded
     (reconcile_global env adminClient r cluster st xs as allExcluded)"
proof (cases "GetPendingForExclusion adminClient 1 []")
  case (Inl err)
  then show ?thesis
    by (simp add: reconcile_global_def tailShape_quiet)
next
  case pending: (Inr pendingExclusions)
  show ?thesis
  proof (cases "GetReadyForExclusion adminClient 1 []")
    case (Inl err)
    with pending show ?thesis
      by (simp add: reconcile_global_def tailShape_quiet)
  next
    case ready: (Inr readyExclusions)
    show ?thesis
    proof (cases "AllProcessesReadyForExclusion env pendingExclusions readyExclusions
                    (GlobalSynchronizationWaitDuration r)")
      case (Inl err)
      with pending ready show ?thesis
        by (simp add: reconcile_global_def tailShape_quiet)
    next
      case allowed: (Inr allowedExclusions)
      show ?thesis
      proof (cases "GetAddressesFromCoordinationState env allowedExclusions
                      (UseLocalitiesForExclusion cluster)
                      (\<not> UseLocalitiesForExclusion cluster)")
        case (Inl err)
        with pending ready allowed show ?thesis
          by (simp add: reconcile_global_def Let_def tailShape_quiet)
      next
        case (Inr toExclude)
        have "tailShape env adminClient cluster st xs as allExcluded
            (after [EvGetPendingForExclusion [], EvGetReadyForExclusion []]
               (after [EvAllProcessesReadyForExclusion pendingExclusions readyExclusions
                         (Inr allowedExclusions)]
                  (reconcile_exclude env adminClient cluster st xs as toExclude
                     (if mapLen allowedExclusions \<noteq> mapLen readyExclusions then False
                      else allExcluded))))"
          by (rule tailShape_after [OF _ _ tailShape_check]) simp_all
        with pending ready allowed Inr show ?thesis
          by (simp add: reconcile_global_def Let_def after_after)
      qed
    qed
  qed
qed

lemma takeLock_quiet:
  "list_all quietEvent (snd (takeLock r cluster))
   \<and> \<not> list_ex partialEvent (snd (takeLock r cluster))"
  by (simp add: takeLock_def split: sum.splits option.splits)

lemma tailShape_takeLock:
  "tailShape env adminClient cluster st xs as allExcluded
     (reconcile_takeLock env adminClient r cluster st xs as toExclude allExcluded)"
proof -
  obtain res evs where lock: "takeLock r cluster = (res, evs)"
    by (cases "takeLock r cluster")
  with takeLock_quiet [of r cluster]
  have "list_all quietEvent evs" "\<not> list_ex partialEvent evs"
    by simp_all
  then show ?thesis
    unfolding reconcile_takeLock_def lock
    by (auto intro!: tailShape_after tailShape_finish tailShape_exclude tailShape_global
          split: sum.splits option.splits)
qed

lemma tailShape_lock:
  "tailShape env adminClient cluster st xs as allExcluded
     (reconcile_lock env adminClient r cluster st xs as updateReady toExclude allExcluded)"
  unfolding reconcile_lock_def
  by (auto intro!: tailShape_after tailShape_finish tailShape_takeLock
        split: option.splits)

subsection \<open>The loop over the classes\<close>

lemma entryLoop_keeps:
  "transactionSystemExclusionAllowed (entryLoop ready entries st)
     = transactionSystemExclusionAllowed st
   \<and> allProcessesExcluded (entryLoop ready entries st) = allProcessesExcluded st
   \<and> logged (entryLoop ready entries st) = logged st"
  by (induction entries arbitrary: st) simp_all

lemma classInv_entryLoop: "classInv env (entryLoop ready entries st) = classInv env st"
  by (simp add: classInv_def entryLoop_keeps)

lemma classInv_classStep:
  assumes "classInv env st"
  shows "classInv env (classStep env r cluster desired candidates ready processClass st)"
proof -
  obtain allowed missing where allowed:
    "getAllowedExclusionsAndMissingProcesses (timeNow env processClass) cluster processClass
       (desired processClass) (ongoingExclusionsByClass candidates processClass)
       (SimulateTime r) = (allowed, missing)"
    by (cases "getAllowedExclusionsAndMissingProcesses (timeNow env processClass) cluster
                 processClass (desired processClass)
                 (ongoingExclusionsByClass candidates processClass) (SimulateTime r)")
  show ?thesis
  proof (cases "sint allowed \<le> 0")
    case True
    from assms have "classInv env
        (st\<lparr>transactionSystemExclusionAllowed :=
              (if IsTransaction env processClass then False
               else transactionSystemExclusionAllowed st),
            logged :=
              logged st @
                [EvLogWaitingForMissingProcesses processClass missing
                   (entriesOf (fdbProcessesToExcludeByClass candidates) processClass)
                   allowed (ongoingExclusionsByClass candidates processClass)],
            allProcessesExcluded := False\<rparr>)"
      unfolding classInv_def by simp blast
    with True show ?thesis
      by (simp add: classStep_def allowed Let_def)
  next
    case False
    from assms have "classInv env
        (st\<lparr>allProcessesExcluded := False,
            logged :=
              logged st @
                [EvLogContinuingWithExclusion processClass missing
                   (entriesOf (fdbProcessesToExcludeByClass candidates) processClass)
                   allowed (ongoingExclusionsByClass candidates processClass)]\<rparr>)"
      unfolding classInv_def by simp
    with False assms show ?thesis
      by (simp add: classStep_def allowed Let_def classInv_entryLoop)
  qed
qed

lemma classInv_classLoop:
  "classInv env st \<Longrightarrow> classInv env (classLoop env r cluster desired candidates ready cs st)"
  by (induction cs arbitrary: st) (simp_all add: classInv_classStep)

lemma classInv_classInit: "classInv env classInit"
  by (simp add: classInv_def classInit_def)

subsection \<open>The shape of a pass\<close>

lemma passShape_finish: "passShape env adminClient cluster st (finish res s)"
  by (simp add: passShape_def endsEarly_def)

lemma endsEarly_after:
  "list_all earlyEvent evs \<Longrightarrow> endsEarly out \<Longrightarrow> endsEarly (after evs out)"
  by (simp add: endsEarly_def)

lemma endsAtRecoveryCheck_after:
  assumes "list_all earlyEvent evs" and "endsAtRecoveryCheck out"
  shows "endsAtRecoveryCheck (after evs out)"
proof -
  from assms(2) obtain pre e where
    "trace out = pre @ [EvCanSafelyExcludeProcessesWithRecoveryState (Some e)]"
    "list_all earlyEvent pre" "result out = Returned (Some (requeueRecoveryState e))"
    unfolding endsAtRecoveryCheck_def by blast
  with assms(1) have
    "trace (after evs out) = (evs @ pre) @ [EvCanSafelyExcludeProcessesWithRecoveryState (Some e)]
     \<and> list_all earlyEvent (evs @ pre)
     \<and> result (after evs out) = Returned (Some (requeueRecoveryState e))"
    by simp
  then show ?thesis
    unfolding endsAtRecoveryCheck_def by blast
qed

lemma endsWithoutExclusion_after:
  assumes "list_all earlyEvent evs" and "endsWithoutExclusion env out"
  shows "endsWithoutExclusion env (after evs out)"
proof -
  from assms(2) obtain pre logs post where shape:
    "trace out = pre @ logs @ post"
    "list_all earlyEvent pre" "list_all logEvent logs" "list_all quietEvent post"
    "(\<exists>c missing entries allowed ongoing.
         EvLogWaitingForMissingProcesses c missing entries allowed ongoing \<in> set logs
       \<and> IsTransaction env c)
      \<longrightarrow> post = []
          \<and> (result out = Returned (Some requeueNotAllowed)
             \<or> result out = Returned (Some requeueTransactionSystem))"
    unfolding endsWithoutExclusion_def by blast
  with assms(1) have
    "trace (after evs out) = (evs @ pre) @ logs @ post
     \<and> list_all earlyEvent (evs @ pre) \<and> list_all logEvent logs \<and> list_all quietEvent post
     \<and> ((\<exists>c missing entries allowed ongoing.
         EvLogWaitingForMissingProcesses c missing entries allowed ongoing \<in> set logs
       \<and> IsTransaction env c)
      \<longrightarrow> post = []
          \<and> (result (after evs out) = Returned (Some requeueNotAllowed)
             \<or> result (after evs out) = Returned (Some requeueTransactionSystem)))"
    by simp
  then show ?thesis
    unfolding endsWithoutExclusion_def by blast
qed

lemma endsWithExclusion_after:
  assumes "list_all earlyEvent evs" and "endsWithExclusion env adminClient cluster st out"
  shows "endsWithExclusion env adminClient cluster st (after evs out)"
proof -
  let ?E = "\<lambda>toExclude allExcluded.
      reconcile_exclude env adminClient cluster st
        (coordinatorsExclusionString cluster (GetCoordinatorsFromStatus env st))
        (coordinatorsAddress cluster (GetCoordinatorsFromStatus env st))
        toExclude allExcluded"
  from assms(2) obtain pre logs post toExclude allExcluded where shape:
    "trace out = pre @ logs @ post @ trace (?E toExclude allExcluded)"
    "result out = result (?E toExclude allExcluded)"
    "finalStatus out = finalStatus (?E toExclude allExcluded)"
    "list_all earlyEvent pre" "list_all logEvent logs" "list_all quietEvent post"
    "logs \<noteq> [] \<or> list_ex partialEvent post \<longrightarrow> \<not> allExcluded"
    "\<forall>c missing entries allowed ongoing.
        EvLogWaitingForMissingProcesses c missing entries allowed ongoing \<in> set logs
        \<longrightarrow> \<not> IsTransaction env c"
    unfolding endsWithExclusion_def by blast
  with assms(1) have
    "trace (after evs out) = (evs @ pre) @ logs @ post @ trace (?E toExclude allExcluded)
     \<and> result (after evs out) = result (?E toExclude allExcluded)
     \<and> finalStatus (after evs out) = finalStatus (?E toExclude allExcluded)
     \<and> list_all earlyEvent (evs @ pre) \<and> list_all logEvent logs \<and> list_all quietEvent post
     \<and> (logs \<noteq> [] \<or> list_ex partialEvent post \<longrightarrow> \<not> allExcluded)
     \<and> (\<forall>c missing entries allowed ongoing.
        EvLogWaitingForMissingProcesses c missing entries allowed ongoing \<in> set logs
        \<longrightarrow> \<not> IsTransaction env c)"
    by simp
  then show ?thesis
    unfolding endsWithExclusion_def by blast
qed

lemma passShape_after:
  assumes "list_all earlyEvent evs" and "passShape env adminClient cluster st out"
  shows "passShape env adminClient cluster st (after evs out)"
  using assms(2) endsEarly_after [OF assms(1)] endsAtRecoveryCheck_after [OF assms(1)]
    endsWithoutExclusion_after [OF assms(1)] endsWithExclusion_after [OF assms(1)]
  unfolding passShape_def by blast

lemma passShape_classes:
  "passShape env adminClient cluster st
     (reconcile_classes env adminClient r cluster st
        (coordinatorsExclusionString cluster (GetCoordinatorsFromStatus env st))
        (coordinatorsAddress cluster (GetCoordinatorsFromStatus env st))
        desired candidates ready)"
proof -
  let ?xs = "coordinatorsExclusionString cluster (GetCoordinatorsFromStatus env st)"
  let ?as = "coordinatorsAddress cluster (GetCoordinatorsFromStatus env st)"
  let ?loop = "classLoop env r cluster desired candidates ready
                 (rangeKeys env (fdbProcessesToExcludeByClass candidates)) classInit"
  let ?out = "reconcile_classes env adminClient r cluster st ?xs ?as desired candidates ready"
  let ?tail = "reconcile_lock env adminClient r cluster st ?xs ?as
                 (updateReadyExclusions ?loop) (fdbProcessesToExclude ?loop)
                 (allProcessesExcluded ?loop)"
  have inv: "classInv env ?loop"
    by (rule classInv_classLoop [OF classInv_classInit])
  then have logs: "list_all logEvent (logged ?loop)"
    and some: "logged ?loop \<noteq> [] \<longrightarrow> \<not> allProcessesExcluded ?loop"
    and waiting: "\<And>c missing entries allowed ongoing.
            EvLogWaitingForMissingProcesses c missing entries allowed ongoing
              \<in> set (logged ?loop)
            \<Longrightarrow> IsTransaction env c
            \<Longrightarrow> \<not> transactionSystemExclusionAllowed ?loop"
    unfolding classInv_def by blast+
  consider (none) "fdbProcessesToExclude ?loop = []"
    | (held) "fdbProcessesToExclude ?loop \<noteq> []" "\<not> transactionSystemExclusionAllowed ?loop"
    | (go) "fdbProcessesToExclude ?loop \<noteq> []" "transactionSystemExclusionAllowed ?loop"
    by blast
  then show ?thesis
  proof cases
    case none
    with logs have "trace ?out = [] @ logged ?loop @ []
        \<and> list_all earlyEvent [] \<and> list_all logEvent (logged ?loop) \<and> list_all quietEvent []
        \<and> ((\<exists>c missing entries allowed ongoing.
             EvLogWaitingForMissingProcesses c missing entries allowed ongoing
               \<in> set (logged ?loop)
           \<and> IsTransaction env c)
          \<longrightarrow> [] = []
              \<and> (result ?out = Returned (Some requeueNotAllowed)
                 \<or> result ?out = Returned (Some requeueTransactionSystem)))"
      by (simp add: reconcile_classes_def Let_def)
    then have "endsWithoutExclusion env ?out"
      unfolding endsWithoutExclusion_def by blast
    then show ?thesis by (simp add: passShape_def)
  next
    case held
    with logs have "trace ?out = [] @ logged ?loop @ []
        \<and> list_all earlyEvent [] \<and> list_all logEvent (logged ?loop) \<and> list_all quietEvent []
        \<and> ((\<exists>c missing entries allowed ongoing.
             EvLogWaitingForMissingProcesses c missing entries allowed ongoing
               \<in> set (logged ?loop)
           \<and> IsTransaction env c)
          \<longrightarrow> [] = []
              \<and> (result ?out = Returned (Some requeueNotAllowed)
                 \<or> result ?out = Returned (Some requeueTransactionSystem)))"
      by (simp add: reconcile_classes_def Let_def)
    then have "endsWithoutExclusion env ?out"
      unfolding endsWithoutExclusion_def by blast
    then show ?thesis by (simp add: passShape_def)
  next
    case go
    then have out: "?out = after (logged ?loop) ?tail"
      by (simp add: reconcile_classes_def Let_def)
    have "tailShape env adminClient cluster st ?xs ?as (allProcessesExcluded ?loop) ?tail"
      by (rule tailShape_lock)
    then consider (quiet) "list_all quietEvent (trace ?tail)"
      | (exclusion) post toExclude allExcluded' where
          "trace ?tail = post @ trace (reconcile_exclude env adminClient cluster st ?xs ?as
                                         toExclude allExcluded')"
          "result ?tail = result (reconcile_exclude env adminClient cluster st ?xs ?as
                                    toExclude allExcluded')"
          "finalStatus ?tail = finalStatus (reconcile_exclude env adminClient cluster st ?xs
                                              ?as toExclude allExcluded')"
          "list_all quietEvent post"
          "\<not> allProcessesExcluded ?loop \<or> list_ex partialEvent post \<longrightarrow> \<not> allExcluded'"
      unfolding tailShape_def by blast
    then show ?thesis
    proof cases
      case quiet
      have "\<not> (\<exists>c missing entries allowed ongoing.
             EvLogWaitingForMissingProcesses c missing entries allowed ongoing
               \<in> set (logged ?loop)
           \<and> IsTransaction env c)"
        using waiting go(2) by blast
      then have "(\<exists>c missing entries allowed ongoing.
             EvLogWaitingForMissingProcesses c missing entries allowed ongoing
               \<in> set (logged ?loop)
           \<and> IsTransaction env c)
          \<longrightarrow> trace ?tail = []
              \<and> (result ?out = Returned (Some requeueNotAllowed)
                 \<or> result ?out = Returned (Some requeueTransactionSystem))"
        by blast
      moreover have "trace ?out = [] @ logged ?loop @ trace ?tail"
        by (simp add: out)
      moreover have "list_all earlyEvent []"
        by simp
      ultimately have "endsWithoutExclusion env ?out"
        unfolding endsWithoutExclusion_def using logs quiet by blast
      then show ?thesis by (simp add: passShape_def)
    next
      case exclusion
      have "trace ?out = [] @ logged ?loop @ post
              @ trace (reconcile_exclude env adminClient cluster st ?xs ?as toExclude
                         allExcluded')"
        by (simp add: out exclusion(1))
      moreover have "result ?out = result (reconcile_exclude env adminClient cluster st ?xs
                                             ?as toExclude allExcluded')"
        by (simp add: out exclusion(2))
      moreover have "finalStatus ?out = finalStatus (reconcile_exclude env adminClient cluster
                                             st ?xs ?as toExclude allExcluded')"
        by (simp add: out exclusion(3))
      moreover have "logged ?loop \<noteq> [] \<or> list_ex partialEvent post \<longrightarrow> \<not> allExcluded'"
        using some exclusion(5) by blast
      moreover have "\<forall>c missing entries allowed ongoing.
            EvLogWaitingForMissingProcesses c missing entries allowed ongoing
              \<in> set (logged ?loop)
            \<longrightarrow> \<not> IsTransaction env c"
        using waiting go(2) by blast
      moreover have "list_all earlyEvent []"
        by simp
      ultimately have "endsWithExclusion env adminClient cluster st ?out"
        unfolding endsWithExclusion_def using logs exclusion(4) by blast
      then show ?thesis by (simp add: passShape_def)
    qed
  qed
qed

lemma passShape_recoveryCheck:
  "passShape env adminClient cluster st
     (after [EvCanSafelyExcludeProcessesWithRecoveryState (Some e)]
        (finish (Returned (Some (requeueRecoveryState e))) s))"
proof -
  have "endsAtRecoveryCheck
     (after [EvCanSafelyExcludeProcessesWithRecoveryState (Some e)]
        (finish (Returned (Some (requeueRecoveryState e))) s) :: 'a outcome)"
    unfolding endsAtRecoveryCheck_def
    by (rule exI [of _ "[]"], rule exI [of _ e]) simp
  then show ?thesis by (simp add: passShape_def)
qed

lemma passShape_prepare:
  "passShape env adminClient cluster st
     (reconcile_prepare env adminClient r cluster st candidates)"
  unfolding reconcile_prepare_def Let_def
  by (auto intro!: passShape_after passShape_finish passShape_classes
        passShape_recoveryCheck split: option.splits sum.splits)

lemma passShape_candidates:
  "passShape env adminClient cluster st
     (reconcile_candidates env adminClient r cluster st exclusions pending)"
  unfolding reconcile_candidates_def Let_def
  by (auto intro!: passShape_after passShape_finish passShape_prepare
        split: option.splits)

lemma passShape_exclusions:
  "passShape env adminClient cluster st (reconcile_exclusions env adminClient r cluster st)"
  unfolding reconcile_exclusions_def
  by (auto intro!: passShape_after passShape_finish passShape_candidates
        split: sum.splits)

lemma reconcile_status_shape:
  assumes "ClusterDatabaseClientProvider r = Some adminClient"
  shows "endsEarly (reconcile_status env adminClient r cluster status)
         \<or> (\<exists>st. statusInUse r status = Some st
                \<and> passShape env adminClient cluster st
                     (reconcile_status env adminClient r cluster status))"
proof (cases status)
  case (Some given)
  then show ?thesis
    by (simp add: reconcile_status_def statusInUse_def passShape_exclusions)
next
  case None
  show ?thesis
  proof (cases "GetStatus adminClient")
    case (Inl err)
    with None show ?thesis
      by (simp add: reconcile_status_def endsEarly_def)
  next
    case (Inr fetched)
    with None assms have "statusInUse r status = Some fetched"
      by (simp add: statusInUse_def)
    moreover have "passShape env adminClient cluster fetched
        (reconcile_status env adminClient r cluster status)"
      using None Inr
      by (simp add: reconcile_status_def passShape_after passShape_exclusions)
    ultimately show ?thesis by blast
  qed
qed

text \<open>Every pass: it makes no call at all (no provider, or no admin client), or it is
  a body of one of the shapes, followed by the deferred \<^verbatim>\<open>Close\<close>.\<close>

lemma reconcile_shape:
  "trace (reconcile env r cluster status) = []
   \<or> (\<exists>adminClient body.
         ClusterDatabaseClientProvider r = Some adminClient
       \<and> trace (reconcile env r cluster status) = trace body @ [EvClose]
       \<and> result (reconcile env r cluster status) = result body
       \<and> finalStatus (reconcile env r cluster status) = finalStatus body
       \<and> (endsEarly body
          \<or> (\<exists>st. statusInUse r status = Some st
                 \<and> passShape env adminClient cluster st body)))"
proof (cases "ClusterDatabaseClientProvider r")
  case None
  then show ?thesis
    by (simp add: reconcile_def getClusterDatabaseClientProvider_def)
next
  case (Some adminClient)
  show ?thesis
  proof (cases "GetAdminClientWithLogger adminClient")
    case (Some err)
    with \<open>ClusterDatabaseClientProvider r = Some adminClient\<close> show ?thesis
      by (simp add: reconcile_def getClusterDatabaseClientProvider_def)
  next
    case None
    let ?body = "reconcile_status env adminClient r cluster status"
    have "trace (reconcile env r cluster status) = trace ?body @ [EvClose]
       \<and> result (reconcile env r cluster status) = result ?body
       \<and> finalStatus (reconcile env r cluster status) = finalStatus ?body"
      using None \<open>ClusterDatabaseClientProvider r = Some adminClient\<close>
      by (simp add: reconcile_def getClusterDatabaseClientProvider_def Let_def)
    with reconcile_status_shape [OF \<open>ClusterDatabaseClientProvider r = Some adminClient\<close>,
           of env cluster status]
      \<open>ClusterDatabaseClientProvider r = Some adminClient\<close>
    show ?thesis by blast
  qed
qed

subsection \<open>Passes with and without an exclude call\<close>

lemma reconcile_exclude_error:
  "ExcludeProcessesWithNoWait adminClient toExclude True = Some e \<Longrightarrow>
   result (reconcile_exclude env adminClient cluster status xs as toExclude allExcluded)
     = Returned (Some (delayedError e))"
  by (simp add: reconcile_exclude_def Let_def)

lemma event_in_rest:
  assumes "ev \<in> set (pre @ logs @ post @ rest)"
    and "list_all earlyEvent pre" "list_all logEvent logs" "list_all quietEvent post"
    and "\<not> earlyEvent ev" "\<not> logEvent ev" "\<not> quietEvent ev"
  shows "ev \<in> set rest"
  using assms by (auto simp: list_all_iff)

lemma event_in_logs:
  assumes "ev \<in> set (pre @ logs @ post @ rest)"
    and "list_all earlyEvent pre" "list_all quietEvent post"
    and "\<not> earlyEvent ev" "\<not> quietEvent ev" "ev \<notin> set rest"
  shows "ev \<in> set logs"
  using assms by (auto simp: list_all_iff)

lemma logEvent_kind: "logEvent ev \<Longrightarrow> \<not> earlyEvent ev \<and> \<not> quietEvent ev"
  by (cases ev rule: logEvent.cases) simp_all

lemma partial_not_early: "partialEvent ev \<Longrightarrow> \<not> earlyEvent ev"
  by (cases ev rule: partialEvent.cases) simp_all

lemma log_partial: "logEvent ev \<Longrightarrow> partialEvent ev"
  by (cases ev rule: logEvent.cases) simp_all

lemma log_in_logs:
  assumes "ev \<in> set (pre @ logs @ post)" and "logEvent ev"
    and "list_all earlyEvent pre" "list_all quietEvent post"
  shows "ev \<in> set logs"
  using event_in_logs [of ev pre logs post "[]"] assms logEvent_kind [of ev] by simp

lemma exclude_not_early:
  "list_all earlyEvent evs \<Longrightarrow> EvExcludeProcessesWithNoWait addrs locking err \<notin> set evs"
  using event_in_rest [of "EvExcludeProcessesWithNoWait addrs locking err" evs "[]" "[]" "[]"]
  by auto

lemma exclude_not_in_body:
  assumes "list_all earlyEvent pre" "list_all logEvent logs" "list_all quietEvent post"
  shows "EvExcludeProcessesWithNoWait addrs locking err \<notin> set (pre @ logs @ post)"
  using event_in_rest [of "EvExcludeProcessesWithNoWait addrs locking err" pre logs post "[]"]
    assms by auto

text \<open>A pass whose trace holds an exclude call is a pass of the last shape: the call is
  the one of \<open>reconcile_exclude\<close>, and what comes before it are events of the earlier
  parts.\<close>

lemma exclusion_pass:
  assumes "EvExcludeProcessesWithNoWait addrs locking err
             \<in> set (trace (reconcile env r cluster status))"
  obtains adminClient st before allExcluded where
    "ClusterDatabaseClientProvider r = Some adminClient"
    "statusInUse r status = Some st"
    "locking" "err = ExcludeProcessesWithNoWait adminClient addrs True"
    "trace (reconcile env r cluster status) =
       before
       @ trace (reconcile_exclude env adminClient cluster st
                  (coordinatorsExclusionString cluster (GetCoordinatorsFromStatus env st))
                  (coordinatorsAddress cluster (GetCoordinatorsFromStatus env st))
                  addrs allExcluded)
       @ [EvClose]"
    "result (reconcile env r cluster status) =
       result (reconcile_exclude env adminClient cluster st
                 (coordinatorsExclusionString cluster (GetCoordinatorsFromStatus env st))
                 (coordinatorsAddress cluster (GetCoordinatorsFromStatus env st))
                 addrs allExcluded)"
    "finalStatus (reconcile env r cluster status) =
       finalStatus (reconcile_exclude env adminClient cluster st
                 (coordinatorsExclusionString cluster (GetCoordinatorsFromStatus env st))
                 (coordinatorsAddress cluster (GetCoordinatorsFromStatus env st))
                 addrs allExcluded)"
    "\<forall>ev\<in>set before. earlyEvent ev \<or> logEvent ev \<or> quietEvent ev"
    "(\<exists>ev\<in>set before. partialEvent ev) \<longrightarrow> \<not> allExcluded"
proof -
  let ?ev = "EvExcludeProcessesWithNoWait addrs locking err"
  let ?out = "reconcile env r cluster status"
  from assms have "trace ?out \<noteq> []"
    by auto
  with reconcile_shape [of env r cluster status] obtain adminClient body where
    provider: "ClusterDatabaseClientProvider r = Some adminClient"
    and body: "trace ?out = trace body @ [EvClose]" "result ?out = result body"
      "finalStatus ?out = finalStatus body"
    and shape: "endsEarly body
          \<or> (\<exists>st. statusInUse r status = Some st
                 \<and> passShape env adminClient cluster st body)"
    by blast
  from assms body(1) have inBody: "?ev \<in> set (trace body)"
    by simp
  then have notEarly: "\<not> endsEarly body"
    using exclude_not_early [of "trace body"] by (auto simp: endsEarly_def)
  with shape obtain st where st: "statusInUse r status = Some st"
    and pass: "passShape env adminClient cluster st body"
    by blast
  have "\<not> endsAtRecoveryCheck body"
  proof
    assume "endsAtRecoveryCheck body"
    then obtain pre e where
      "trace body = pre @ [EvCanSafelyExcludeProcessesWithRecoveryState (Some e)]"
      "list_all earlyEvent pre"
      unfolding endsAtRecoveryCheck_def by blast
    with inBody exclude_not_early [of pre addrs locking err] show False
      by simp
  qed
  moreover have "\<not> endsWithoutExclusion env body"
  proof
    assume "endsWithoutExclusion env body"
    then obtain pre logs post where "trace body = pre @ logs @ post"
      "list_all earlyEvent pre" "list_all logEvent logs" "list_all quietEvent post"
      unfolding endsWithoutExclusion_def by blast
    with inBody exclude_not_in_body [of pre logs post addrs locking err] show False
      by simp
  qed
  ultimately have "endsWithExclusion env adminClient cluster st body"
    using pass notEarly by (simp add: passShape_def)
  then obtain pre logs post toExclude allExcluded where ex:
    "trace body = pre @ logs @ post
       @ trace (reconcile_exclude env adminClient cluster st
                  (coordinatorsExclusionString cluster (GetCoordinatorsFromStatus env st))
                  (coordinatorsAddress cluster (GetCoordinatorsFromStatus env st))
                  toExclude allExcluded)"
    "result body = result (reconcile_exclude env adminClient cluster st
                  (coordinatorsExclusionString cluster (GetCoordinatorsFromStatus env st))
                  (coordinatorsAddress cluster (GetCoordinatorsFromStatus env st))
                  toExclude allExcluded)"
    "finalStatus body = finalStatus (reconcile_exclude env adminClient cluster st
                  (coordinatorsExclusionString cluster (GetCoordinatorsFromStatus env st))
                  (coordinatorsAddress cluster (GetCoordinatorsFromStatus env st))
                  toExclude allExcluded)"
    "list_all earlyEvent pre" "list_all logEvent logs" "list_all quietEvent post"
    "logs \<noteq> [] \<or> list_ex partialEvent post \<longrightarrow> \<not> allExcluded"
    unfolding endsWithExclusion_def by blast
  have "?ev \<in> set (trace (reconcile_exclude env adminClient cluster st
                  (coordinatorsExclusionString cluster (GetCoordinatorsFromStatus env st))
                  (coordinatorsAddress cluster (GetCoordinatorsFromStatus env st))
                  toExclude allExcluded))"
    using event_in_rest [of ?ev pre logs post
        "trace (reconcile_exclude env adminClient cluster st
                  (coordinatorsExclusionString cluster (GetCoordinatorsFromStatus env st))
                  (coordinatorsAddress cluster (GetCoordinatorsFromStatus env st))
                  toExclude allExcluded)"]
      inBody ex(1,4,5,6)
    by simp
  from reconcile_exclude_issued [OF this]
  have same: "addrs = toExclude" "locking"
    "err = ExcludeProcessesWithNoWait adminClient toExclude True"
    by simp_all
  have kinds: "\<forall>ev\<in>set (pre @ logs @ post). earlyEvent ev \<or> logEvent ev \<or> quietEvent ev"
    using ex(4,5,6) by (auto simp: list_all_iff)
  have logs: "(\<exists>ev\<in>set (pre @ logs @ post). partialEvent ev) \<longrightarrow> \<not> allExcluded"
  proof
    assume "\<exists>ev\<in>set (pre @ logs @ post). partialEvent ev"
    then obtain ev where ev: "ev \<in> set (pre @ logs @ post)" "partialEvent ev"
      by blast
    from ev(1) ex(4) partial_not_early [OF ev(2)] have "ev \<in> set logs \<or> ev \<in> set post"
      by (auto simp: list_all_iff)
    with ev(2) have "logs \<noteq> [] \<or> list_ex partialEvent post"
      by (auto simp: list_ex_iff)
    then show "\<not> allExcluded"
      using ex(7) by blast
  qed
  show thesis
    by (rule that [of adminClient st "pre @ logs @ post" allExcluded])
       (use provider st same body ex(1,2,3) kinds logs in simp_all)
qed

text \<open>The other shapes hold no exclude call.\<close>

lemma no_exclusion_pass:
  assumes "trace (reconcile env r cluster status) = trace body @ [EvClose]"
    and "endsEarly body \<or> endsAtRecoveryCheck body \<or> endsWithoutExclusion env body"
  shows "EvExcludeProcessesWithNoWait addrs locking err
           \<notin> set (trace (reconcile env r cluster status))"
proof -
  have "EvExcludeProcessesWithNoWait addrs locking err \<notin> set (trace body)"
    using assms(2)
  proof (elim disjE)
    assume "endsEarly body"
    then show ?thesis
      using exclude_not_early [of "trace body"] by (simp add: endsEarly_def)
  next
    assume "endsAtRecoveryCheck body"
    then obtain pre e where
      "trace body = pre @ [EvCanSafelyExcludeProcessesWithRecoveryState (Some e)]"
      "list_all earlyEvent pre"
      unfolding endsAtRecoveryCheck_def by blast
    with exclude_not_early [of pre addrs locking err] show ?thesis
      by simp
  next
    assume "endsWithoutExclusion env body"
    then obtain pre logs post where "trace body = pre @ logs @ post"
      "list_all earlyEvent pre" "list_all logEvent logs" "list_all quietEvent post"
      unfolding endsWithoutExclusion_def by blast
    with exclude_not_in_body [of pre logs post addrs locking err] show ?thesis
      by simp
  qed
  with assms(1) show ?thesis by simp
qed

subsection \<open>Example passes\<close>

lemma scenario_pass:
  "reconcile exampleEnv (exampleReconciler exampleClients) scenarioCluster None =
     \<lparr>result = Returned (Some requeueAdditional),
      trace =
        [EvGetStatus, EvCanSafelyExcludeProcessesWithRecoveryState None,
         EvLogContinuingWithExclusion ''storage'' []
           [entryOf ''storage-3'', entryOf ''storage-4'', entryOf ''storage-5''] 1 0,
         EvRecorderEvent [localityOf ''storage-3''],
         EvExcludeProcessesWithNoWait [localityOf ''storage-3''] True None,
         EvClose],
      finalStatus = Some \<lparr>SecondsSinceLastRecovered = 0\<rparr>\<rparr>"
  by code_simp


lemma failing_coordinator_pass:
  "reconcile failingCoordinatorEnv (exampleReconciler exampleClients) scenarioCluster
       (Some \<lparr>SecondsSinceLastRecovered = 600\<rparr>) =
     \<lparr>result = Returned (Some (delayedError ''coordinators not changed'')),
      trace =
        [EvCanSafelyExcludeProcessesWithRecoveryState None,
         EvLogContinuingWithExclusion ''storage'' []
           [entryOf ''storage-3'', entryOf ''storage-4'', entryOf ''storage-5''] 1 0,
         EvRecorderEvent [localityOf ''storage-3''],
         EvExcludeProcessesWithNoWait [localityOf ''storage-3''] True None,
         EvChangeCoordinators (Some ''coordinators not changed''),
         EvClose],
      finalStatus = Some \<lparr>SecondsSinceLastRecovered = 0\<rparr>\<rparr>"
  by code_simp

lemma failing_exclude_pass:
  "reconcile exampleEnv (exampleReconciler failingClients) scenarioCluster
       (Some \<lparr>SecondsSinceLastRecovered = 600\<rparr>) =
     \<lparr>result = Returned (Some (delayedError ''timed out'')),
      trace =
        [EvCanSafelyExcludeProcessesWithRecoveryState None,
         EvLogContinuingWithExclusion ''storage'' []
           [entryOf ''storage-3'', entryOf ''storage-4'', entryOf ''storage-5''] 1 0,
         EvRecorderEvent [localityOf ''storage-3''],
         EvExcludeProcessesWithNoWait [localityOf ''storage-3''] True (Some ''timed out''),
         EvClose],
      finalStatus = Some \<lparr>SecondsSinceLastRecovered = 0\<rparr>\<rparr>"
  by code_simp

lemma recovering_pass:
  "reconcile recoveringEnv (exampleReconciler exampleClients) scenarioCluster
       (Some \<lparr>SecondsSinceLastRecovered = 60\<rparr>) =
     \<lparr>result = Returned (Some (requeueRecoveryState ''cluster has recovered too recently'')),
      trace =
        [EvCanSafelyExcludeProcessesWithRecoveryState
           (Some ''cluster has recovered too recently''),
         EvClose],
      finalStatus = Some \<lparr>SecondsSinceLastRecovered = 60\<rparr>\<rparr>"
  by code_simp

lemma global_pass:
  "reconcile globalEnv (exampleReconciler globalClients) globalCluster None =
     \<lparr>result = Returned (Some requeueAdditional),
      trace =
        [EvGetStatus, EvGetPendingForExclusion [],
         EvUpdatePendingForExclusion
           [(''storage-3'', UpdateActionAdd), (''storage-4'', UpdateActionAdd),
            (''storage-5'', UpdateActionAdd)],
         EvCanSafelyExcludeProcessesWithRecoveryState None,
         EvGetReadyForExclusion [],
         EvUpdateReadyForExclusion
           [(''storage-3'', UpdateActionAdd), (''storage-4'', UpdateActionAdd),
            (''storage-5'', UpdateActionAdd)],
         EvGetPendingForExclusion [], EvGetReadyForExclusion [],
         EvAllProcessesReadyForExclusion [] globalReady (Inr (take 1 globalReady)),
         EvRecorderEvent [localityOf ''storage-3''],
         EvExcludeProcessesWithNoWait [localityOf ''storage-3''] True None,
         EvClose],
      finalStatus = Some \<lparr>SecondsSinceLastRecovered = 0\<rparr>\<rparr>"
  by code_simp


lemma mixed_pass:
  "reconcile exampleEnv (exampleReconciler exampleClients) mixedCluster None =
     \<lparr>result = Returned (Some requeueTransactionSystem),
      trace =
        [EvGetStatus, EvCanSafelyExcludeProcessesWithRecoveryState None,
         EvLogWaitingForMissingProcesses ''log'' [] [entryOf ''log-1''] 0 0,
         EvClose],
      finalStatus = Some \<lparr>SecondsSinceLastRecovered = 600\<rparr>\<rparr>"
  by code_simp

lemma mixed_candidates:
  "fdbProcessesToExcludeByClass (getProcessesToExclude exampleEnv [] mixedCluster Map.empty [])
     = [(''storage'', [entryOf ''storage-4'']), (''log'', [entryOf ''log-1''])]"
  by code_simp

lemma mixed_allowed:
  "getAllowedExclusionsAndMissingProcesses (timeNow exampleEnv ''log'') mixedCluster ''log''
       3 0 False = (0, [])"
  "getAllowedExclusionsAndMissingProcesses (timeNow exampleEnv ''storage'') mixedCluster
       ''storage'' 3 0 False = (2, [])"
  by code_simp+

subsection \<open>The recovery counter\<close>

text \<open>
  Claim C10. Whenever a pass makes the exclude call, whatever the call returns, the pass
  ends with \<open>SecondsSinceLastRecovered\<close> set to 0 in the status it worked on (the one
  passed in or the one it fetched); in particular when the call returns an error, in
  which case the pass returns a delayed requeue with that error.
\<close>

theorem exclude_resets_recovery_counter:
  assumes "EvExcludeProcessesWithNoWait addrs locking err
             \<in> set (trace (reconcile env r cluster status))"
  shows "(\<exists>st. statusInUse r status = Some st
             \<and> finalStatus (reconcile env r cluster status)
                 = Some (st\<lparr>SecondsSinceLastRecovered := 0\<rparr>))
         \<and> (\<forall>e. err = Some e
               \<longrightarrow> result (reconcile env r cluster status) = Returned (Some (delayedError e)))"
proof -
  from assms obtain adminClient st before allExcluded where pass:
    "statusInUse r status = Some st"
    "err = ExcludeProcessesWithNoWait adminClient addrs True"
    "result (reconcile env r cluster status) =
       result (reconcile_exclude env adminClient cluster st
                 (coordinatorsExclusionString cluster (GetCoordinatorsFromStatus env st))
                 (coordinatorsAddress cluster (GetCoordinatorsFromStatus env st))
                 addrs allExcluded)"
    "finalStatus (reconcile env r cluster status) =
       finalStatus (reconcile_exclude env adminClient cluster st
                 (coordinatorsExclusionString cluster (GetCoordinatorsFromStatus env st))
                 (coordinatorsAddress cluster (GetCoordinatorsFromStatus env st))
                 addrs allExcluded)"
    by (rule exclusion_pass)
  from pass(1,4) have "\<exists>st. statusInUse r status = Some st
             \<and> finalStatus (reconcile env r cluster status)
                 = Some (st\<lparr>SecondsSinceLastRecovered := 0\<rparr>)"
    by (simp add: reconcile_exclude_status)
  moreover from pass(2,3) have "\<forall>e. err = Some e
               \<longrightarrow> result (reconcile env r cluster status) = Returned (Some (delayedError e))"
    by (simp add: reconcile_exclude_error)
  ultimately show ?thesis by blast
qed

theorem exclude_resets_recovery_counter_witness:
  "finalStatus (reconcile exampleEnv (exampleReconciler failingClients) scenarioCluster
                  (Some \<lparr>SecondsSinceLastRecovered = 600\<rparr>))
     = Some \<lparr>SecondsSinceLastRecovered = 0\<rparr>
   \<and> result (reconcile exampleEnv (exampleReconciler failingClients) scenarioCluster
                (Some \<lparr>SecondsSinceLastRecovered = 600\<rparr>))
     = Returned (Some (delayedError ''timed out''))"
proof -
  have "EvExcludeProcessesWithNoWait [localityOf ''storage-3''] True (Some ''timed out'')
          \<in> set (trace (reconcile exampleEnv (exampleReconciler failingClients)
                           scenarioCluster (Some \<lparr>SecondsSinceLastRecovered = 600\<rparr>)))"
    by (simp add: failing_exclude_pass)
  from exclude_resets_recovery_counter [OF this] show ?thesis
    by (simp add: statusInUse_def)
qed

subsection \<open>The coordinators\<close>



subsection \<open>The check of the recovery state\<close>

text \<open>
  Claim C6. A pass in which the check of the recovery state fails with an error (which
  the pass reaches only with a non-empty set of candidates) makes no exclude call and
  returns a delayed requeue that carries the error, with a delay of 10 seconds.
\<close>

theorem recovery_check_failure_delays:
  assumes "EvCanSafelyExcludeProcessesWithRecoveryState (Some err)
             \<in> set (trace (reconcile env r cluster status))"
  shows "result (reconcile env r cluster status)
           = Returned (Some \<lparr>curError = Some err, delayedRequeue = True,
                             delay = 10 * Second, message = []\<rparr>)
         \<and> (\<forall>addrs locking e.
               EvExcludeProcessesWithNoWait addrs locking e
                 \<notin> set (trace (reconcile env r cluster status)))"
proof -
  let ?ev = "EvCanSafelyExcludeProcessesWithRecoveryState (Some err)"
  let ?out = "reconcile env r cluster status"
  from assms have "trace ?out \<noteq> []"
    by auto
  with reconcile_shape [of env r cluster status] obtain adminClient body where
    body: "trace ?out = trace body @ [EvClose]" "result ?out = result body"
    and shape: "endsEarly body
          \<or> (\<exists>st. statusInUse r status = Some st
                 \<and> passShape env adminClient cluster st body)"
    by blast
  from assms body(1) have inBody: "?ev \<in> set (trace body)"
    by simp
  have notEarly: "\<not> endsEarly body"
    using inBody event_in_rest [of ?ev "trace body" "[]" "[]" "[]"]
    by (auto simp: endsEarly_def)
  have notWithout: "\<not> endsWithoutExclusion env body"
  proof
    assume "endsWithoutExclusion env body"
    then obtain pre logs post where "trace body = pre @ logs @ post"
      "list_all earlyEvent pre" "list_all logEvent logs" "list_all quietEvent post"
      unfolding endsWithoutExclusion_def by blast
    with inBody event_in_rest [of ?ev pre logs post "[]"] show False
      by simp
  qed
  have notWith: "\<not> endsWithExclusion env adminClient cluster st body" for st
  proof
    assume "endsWithExclusion env adminClient cluster st body"
    then obtain pre logs post toExclude allExcluded where
      "trace body = pre @ logs @ post
         @ trace (reconcile_exclude env adminClient cluster st
                  (coordinatorsExclusionString cluster (GetCoordinatorsFromStatus env st))
                  (coordinatorsAddress cluster (GetCoordinatorsFromStatus env st))
                  toExclude allExcluded)"
      "list_all earlyEvent pre" "list_all logEvent logs" "list_all quietEvent post"
      unfolding endsWithExclusion_def by blast
    with inBody have "?ev \<in> set (trace (reconcile_exclude env adminClient cluster st
                  (coordinatorsExclusionString cluster (GetCoordinatorsFromStatus env st))
                  (coordinatorsAddress cluster (GetCoordinatorsFromStatus env st))
                  toExclude allExcluded))"
      using event_in_rest [of ?ev pre logs post
          "trace (reconcile_exclude env adminClient cluster st
                  (coordinatorsExclusionString cluster (GetCoordinatorsFromStatus env st))
                  (coordinatorsAddress cluster (GetCoordinatorsFromStatus env st))
                  toExclude allExcluded)"]
      by simp
    from reconcile_exclude_events [OF this] show False
      by simp
  qed
  from shape notEarly obtain st where "passShape env adminClient cluster st body"
    by blast
  with notEarly notWithout notWith [of st] have check: "endsAtRecoveryCheck body"
    by (simp add: passShape_def)
  then obtain pre e where pre:
    "trace body = pre @ [EvCanSafelyExcludeProcessesWithRecoveryState (Some e)]"
    "list_all earlyEvent pre" "result body = Returned (Some (requeueRecoveryState e))"
    unfolding endsAtRecoveryCheck_def by blast
  have "?ev \<notin> set pre"
    using pre(2) event_in_rest [of ?ev pre "[]" "[]" "[]"] by auto
  with inBody have "?ev \<in> set [EvCanSafelyExcludeProcessesWithRecoveryState (Some e)]"
    unfolding pre(1) by simp
  then have "e = err"
    by simp
  with pre(3) body(2) have "result ?out
           = Returned (Some \<lparr>curError = Some err, delayedRequeue = True,
                             delay = 10 * Second, message = []\<rparr>)"
    by (simp add: requeueRecoveryState_def emptyRequeue_def)
  moreover have "EvExcludeProcessesWithNoWait addrs locking e \<notin> set (trace ?out)"
    for addrs locking e
    by (rule no_exclusion_pass [OF body(1)]) (simp add: check)
  ultimately show ?thesis by simp
qed

theorem recovery_check_failure_delays_witness:
  "result (reconcile recoveringEnv (exampleReconciler exampleClients) scenarioCluster
             (Some \<lparr>SecondsSinceLastRecovered = 60\<rparr>))
     = Returned (Some \<lparr>curError = Some ''cluster has recovered too recently'',
                       delayedRequeue = True, delay = 10 * Second, message = []\<rparr>)"
proof -
  have "EvCanSafelyExcludeProcessesWithRecoveryState
          (Some ''cluster has recovered too recently'')
          \<in> set (trace (reconcile recoveringEnv (exampleReconciler exampleClients)
                           scenarioCluster (Some \<lparr>SecondsSinceLastRecovered = 60\<rparr>)))"
    by (simp add: recovering_pass)
  from recovery_check_failure_delays [OF this] show ?thesis
    by (rule conjunct1)
qed

subsection \<open>What the two messages of the loop over the classes mean\<close>

text \<open>
  The loop logs that it waits for a class exactly when it visits the class and finds no
  allowed exclusion for it, and that it continues exactly when the allowed exclusions
  are positive and fewer than the candidates of the class; the values logged are the
  ones computed for the class. The classes visited are the keys of the candidate map.
\<close>

lemma set_rangeKeys: "set (rangeKeys env m) = fst ` set m"
  by (simp add: rangeKeys_def)

lemma logged_classStep:
  "logged (classStep env r cluster desired candidates ready processClass st) =
     logged st @
     (let (allowed, missing) =
            getAllowedExclusionsAndMissingProcesses (timeNow env processClass) cluster
              processClass (desired processClass)
              (ongoingExclusionsByClass candidates processClass) (SimulateTime r);
          entries = entriesOf (fdbProcessesToExcludeByClass candidates) processClass;
          ongoing = ongoingExclusionsByClass candidates processClass
      in if sint allowed \<le> 0
         then [EvLogWaitingForMissingProcesses processClass missing entries allowed ongoing]
         else if sint allowed < sint (len entries)
         then [EvLogContinuingWithExclusion processClass missing entries allowed ongoing]
         else [])"
  by (simp add: classStep_def Let_def entryLoop_keeps split: prod.splits)

lemma classLoop_waiting:
  "EvLogWaitingForMissingProcesses c missing entries allowed ongoing
     \<in> set (logged (classLoop env r cluster desired candidates ready cs st))
   \<longleftrightarrow>
     EvLogWaitingForMissingProcesses c missing entries allowed ongoing \<in> set (logged st)
     \<or> (c \<in> set cs
        \<and> getAllowedExclusionsAndMissingProcesses (timeNow env c) cluster c (desired c)
              (ongoingExclusionsByClass candidates c) (SimulateTime r) = (allowed, missing)
        \<and> sint allowed \<le> 0
        \<and> entries = entriesOf (fdbProcessesToExcludeByClass candidates) c
        \<and> ongoing = ongoingExclusionsByClass candidates c)"
proof (induction cs arbitrary: st)
  case Nil
  then show ?case by simp
next
  case (Cons processClass cs)
  obtain a m where allowed:
    "getAllowedExclusionsAndMissingProcesses (timeNow env processClass) cluster processClass
       (desired processClass) (ongoingExclusionsByClass candidates processClass)
       (SimulateTime r) = (a, m)"
    by (cases "getAllowedExclusionsAndMissingProcesses (timeNow env processClass) cluster
                 processClass (desired processClass)
                 (ongoingExclusionsByClass candidates processClass) (SimulateTime r)")
  show ?case
    unfolding classLoop.simps Cons.IH logged_classStep allowed
    using allowed by (auto simp: Let_def)
qed

lemma classLoop_continuing:
  "EvLogContinuingWithExclusion c missing entries allowed ongoing
     \<in> set (logged (classLoop env r cluster desired candidates ready cs st))
   \<longleftrightarrow>
     EvLogContinuingWithExclusion c missing entries allowed ongoing \<in> set (logged st)
     \<or> (c \<in> set cs
        \<and> getAllowedExclusionsAndMissingProcesses (timeNow env c) cluster c (desired c)
              (ongoingExclusionsByClass candidates c) (SimulateTime r) = (allowed, missing)
        \<and> 0 < sint allowed
        \<and> sint allowed < sint (len (entriesOf (fdbProcessesToExcludeByClass candidates) c))
        \<and> entries = entriesOf (fdbProcessesToExcludeByClass candidates) c
        \<and> ongoing = ongoingExclusionsByClass candidates c)"
proof (induction cs arbitrary: st)
  case Nil
  then show ?case by simp
next
  case (Cons processClass cs)
  obtain a m where allowed:
    "getAllowedExclusionsAndMissingProcesses (timeNow env processClass) cluster processClass
       (desired processClass) (ongoingExclusionsByClass candidates processClass)
       (SimulateTime r) = (a, m)"
    by (cases "getAllowedExclusionsAndMissingProcesses (timeNow env processClass) cluster
                 processClass (desired processClass)
                 (ongoingExclusionsByClass candidates processClass) (SimulateTime r)")
  show ?case
    unfolding classLoop.simps Cons.IH logged_classStep allowed
    using allowed by (auto simp: Let_def)
qed

subsection \<open>A candidate set computed by address\<close>

lemma address_candidates:
  "fdbProcessesToExcludeByClass
     (getProcessesToExclude exampleEnv addressExclusions addressCluster Map.empty [])
   = [(''storage'',
       [\<lparr>processGroupID = ''storage-4'',
         addresses = [\<lparr>IPAddress = Some ''10.0.0.4'', StringAddress = []\<rparr>]\<rparr>])]"
  by code_simp

theorem getProcessesToExclude_candidates_witness:
  "\<exists>pg\<in>set (ProcessGroups addressCluster).
     ProcessGroupID pg = ''storage-4''
     \<and> ProcessClass pg = ''storage''
     \<and> IsMarkedForRemoval pg
     \<and> \<not> IsExcluded pg
     \<and> GetExclusionString pg \<notin> String exampleEnv ` set addressExclusions
     \<and> [\<lparr>IPAddress = Some ''10.0.0.4'', StringAddress = []\<rparr>]
         = map (\<lambda>a. \<lparr>IPAddress = ParseIP exampleEnv a, StringAddress = []\<rparr>)
             (filter (\<lambda>a. a \<notin> String exampleEnv ` set addressExclusions) (Addresses pg))"
proof -
  let ?e = "\<lparr>processGroupID = ''storage-4'',
             addresses = [\<lparr>IPAddress = Some ''10.0.0.4'', StringAddress = []\<rparr>]\<rparr>"
  have entry: "?e \<in> set (entriesOf (fdbProcessesToExcludeByClass
               (getProcessesToExclude exampleEnv addressExclusions addressCluster Map.empty []))
             ''storage'')"
    by (simp add: address_candidates entriesOf_def)
  have byAddress: "\<not> UseLocalitiesForExclusion addressCluster"
    by (simp add: addressCluster_def)
  from getProcessesToExclude_candidates
         [of exampleEnv addressExclusions addressCluster Map.empty "[]" "''storage''",
          THEN bspec, OF entry]
  show ?thesis
    using byAddress by simp
qed

subsection \<open>The requeue after a partial exclusion\<close>

text \<open>
  Claim C7 as stated fails: in this pass the class storage has three candidates and one
  allowed exclusion, the exclude call is made for one of them and succeeds, and the pass
  returns a delayed requeue with the error of the failed change of coordinators and a
  delay of 0, not of 5 minutes.
\<close>

theorem partial_exclusion_counterexample:
  "EvLogContinuingWithExclusion ''storage'' []
       [entryOf ''storage-3'', entryOf ''storage-4'', entryOf ''storage-5''] 1 0
     \<in> set (trace (reconcile failingCoordinatorEnv (exampleReconciler exampleClients)
                      scenarioCluster (Some \<lparr>SecondsSinceLastRecovered = 600\<rparr>)))
   \<and> EvExcludeProcessesWithNoWait [localityOf ''storage-3''] True None
     \<in> set (trace (reconcile failingCoordinatorEnv (exampleReconciler exampleClients)
                      scenarioCluster (Some \<lparr>SecondsSinceLastRecovered = 600\<rparr>)))
   \<and> result (reconcile failingCoordinatorEnv (exampleReconciler exampleClients)
               scenarioCluster (Some \<lparr>SecondsSinceLastRecovered = 600\<rparr>))
     = Returned (Some \<lparr>curError = Some ''coordinators not changed'', delayedRequeue = True,
                       delay = 0, message = []\<rparr>)"
  by (simp add: failing_coordinator_pass delayedError_def emptyRequeue_def)

text \<open>
  Claim C7, as amended. Fewer than all desired exclusions are processed in a pass when
  the loop over the classes has logged for at least one class that it waits or that it
  continues with fewer exclusions than candidates, or when, in the global
  synchronization mode, the coordination check allows fewer process groups than are
  ready for exclusion. If a pass makes the exclude call and the call succeeds, fewer than
  all desired exclusions are processed for one of these causes, and neither the change
  of coordinators nor the update of the cluster fails, then the pass returns a delayed
  requeue with no error, a delay of 5 minutes and the message that additional processes
  must be excluded.
\<close>

theorem partial_exclusion_requeues_after_five_minutes:
  assumes "EvExcludeProcessesWithNoWait addrs locking None
             \<in> set (trace (reconcile env r cluster status))"
    and "(\<exists>c missing entries allowed ongoing.
            EvLogWaitingForMissingProcesses c missing entries allowed ongoing
              \<in> set (trace (reconcile env r cluster status)))
         \<or> (\<exists>c missing entries allowed ongoing.
            EvLogContinuingWithExclusion c missing entries allowed ongoing
              \<in> set (trace (reconcile env r cluster status)))
         \<or> (\<exists>pendingExclusions readyExclusions allowedExclusions.
            EvAllProcessesReadyForExclusion pendingExclusions readyExclusions
                (Inr allowedExclusions)
              \<in> set (trace (reconcile env r cluster status))
            \<and> mapLen allowedExclusions \<noteq> mapLen readyExclusions)"
    and "\<forall>e. EvChangeCoordinators (Some e) \<notin> set (trace (reconcile env r cluster status))"
    and "\<forall>e. EvUpdateOrApply (Some e) \<notin> set (trace (reconcile env r cluster status))"
  shows "result (reconcile env r cluster status)
           = Returned (Some \<lparr>curError = None, delayedRequeue = True, delay = 5 * Minute,
                             message = ''Additional processes must be excluded''\<rparr>)"
proof -
  let ?out = "reconcile env r cluster status"
  from assms(1) obtain adminClient st before allExcluded where pass:
    "None = ExcludeProcessesWithNoWait adminClient addrs True"
    "trace ?out =
       before
       @ trace (reconcile_exclude env adminClient cluster st
                  (coordinatorsExclusionString cluster (GetCoordinatorsFromStatus env st))
                  (coordinatorsAddress cluster (GetCoordinatorsFromStatus env st))
                  addrs allExcluded)
       @ [EvClose]"
    "result ?out =
       result (reconcile_exclude env adminClient cluster st
                 (coordinatorsExclusionString cluster (GetCoordinatorsFromStatus env st))
                 (coordinatorsAddress cluster (GetCoordinatorsFromStatus env st))
                 addrs allExcluded)"
    "\<forall>ev\<in>set before. earlyEvent ev \<or> logEvent ev \<or> quietEvent ev"
    "(\<exists>ev\<in>set before. partialEvent ev) \<longrightarrow> \<not> allExcluded"
    by (rule exclusion_pass)
  let ?E = "reconcile_exclude env adminClient cluster st
                 (coordinatorsExclusionString cluster (GetCoordinatorsFromStatus env st))
                 (coordinatorsAddress cluster (GetCoordinatorsFromStatus env st))
                 addrs allExcluded"
  from assms(2) obtain ev where ev: "ev \<in> set (trace ?out)" "partialEvent ev"
  proof (elim disjE exE conjE)
    fix c missing entries allowed ongoing
    assume "EvLogWaitingForMissingProcesses c missing entries allowed ongoing
              \<in> set (trace ?out)"
    then show thesis
      by (rule that) simp
  next
    fix c missing entries allowed ongoing
    assume "EvLogContinuingWithExclusion c missing entries allowed ongoing
              \<in> set (trace ?out)"
    then show thesis
      by (rule that) simp
  next
    fix pendingExclusions readyExclusions allowedExclusions
    assume "EvAllProcessesReadyForExclusion pendingExclusions readyExclusions
                (Inr allowedExclusions)
              \<in> set (trace ?out)"
      and "mapLen allowedExclusions \<noteq> mapLen readyExclusions"
    then show thesis
      by (intro that [of "EvAllProcessesReadyForExclusion pendingExclusions readyExclusions
                (Inr allowedExclusions)"]) simp_all
  qed
  have "ev \<notin> set (trace ?E)"
  proof
    assume "ev \<in> set (trace ?E)"
    from reconcile_exclude_events [OF this] ev(2) show False
      by auto
  qed
  with ev pass(2) have "ev \<in> set before"
    by auto
  with ev(2) pass(5) have partial: "\<not> allExcluded"
    by blast
  from assms(3) pass(2) have change: "\<forall>e. EvChangeCoordinators (Some e) \<notin> set (trace ?E)"
    by simp
  from assms(4) pass(2) have update: "\<forall>e. EvUpdateOrApply (Some e) \<notin> set (trace ?E)"
    by simp
  from pass(1) have "ExcludeProcessesWithNoWait adminClient addrs True = None"
    by simp
  from reconcile_exclude_requeue [OF this partial change update] pass(3)
  show ?thesis
    by (simp add: requeueAdditional_def emptyRequeue_def)
qed

text \<open>Two passes of this kind: in the scenario of the spec the loop over the classes
  continues with one of three candidates; in the global pass the loop allows all three
  candidates and logs nothing, and the coordination check allows one of the three
  process groups that are ready.\<close>

theorem partial_exclusion_requeues_witness:
  "(getAllowedExclusions 5 5 0 1 = 1
    \<and> EvLogContinuingWithExclusion ''storage'' []
        [entryOf ''storage-3'', entryOf ''storage-4'', entryOf ''storage-5''] 1 0
      \<in> set (trace (reconcile exampleEnv (exampleReconciler exampleClients) scenarioCluster
                       None))
    \<and> EvExcludeProcessesWithNoWait [localityOf ''storage-3''] True None
      \<in> set (trace (reconcile exampleEnv (exampleReconciler exampleClients) scenarioCluster
                       None))
    \<and> result (reconcile exampleEnv (exampleReconciler exampleClients) scenarioCluster None)
      = Returned (Some \<lparr>curError = None, delayedRequeue = True, delay = 5 * Minute,
                        message = ''Additional processes must be excluded''\<rparr>))
   \<and> (mapLen (take 1 globalReady) = 1 \<and> mapLen globalReady = 3
    \<and> EvAllProcessesReadyForExclusion [] globalReady (Inr (take 1 globalReady))
      \<in> set (trace (reconcile globalEnv (exampleReconciler globalClients) globalCluster
                       None))
    \<and> \<not> list_ex logEvent
          (trace (reconcile globalEnv (exampleReconciler globalClients) globalCluster None))
    \<and> EvExcludeProcessesWithNoWait [localityOf ''storage-3''] True None
      \<in> set (trace (reconcile globalEnv (exampleReconciler globalClients) globalCluster
                       None))
    \<and> result (reconcile globalEnv (exampleReconciler globalClients) globalCluster None)
      = Returned (Some \<lparr>curError = None, delayedRequeue = True, delay = 5 * Minute,
                        message = ''Additional processes must be excluded''\<rparr>))"
proof -
  let ?out = "reconcile exampleEnv (exampleReconciler exampleClients) scenarioCluster None"
  let ?global = "reconcile globalEnv (exampleReconciler globalClients) globalCluster None"
  have call: "EvExcludeProcessesWithNoWait [localityOf ''storage-3''] True None
                \<in> set (trace ?out)"
    by (simp add: scenario_pass)
  have logged: "EvLogContinuingWithExclusion ''storage'' []
       [entryOf ''storage-3'', entryOf ''storage-4'', entryOf ''storage-5''] 1 0
     \<in> set (trace ?out)"
    by (simp add: scenario_pass)
  then have partial: "(\<exists>c missing entries allowed ongoing.
            EvLogWaitingForMissingProcesses c missing entries allowed ongoing
              \<in> set (trace ?out))
         \<or> (\<exists>c missing entries allowed ongoing.
            EvLogContinuingWithExclusion c missing entries allowed ongoing
              \<in> set (trace ?out))
         \<or> (\<exists>pendingExclusions readyExclusions allowedExclusions.
            EvAllProcessesReadyForExclusion pendingExclusions readyExclusions
                (Inr allowedExclusions)
              \<in> set (trace ?out)
            \<and> mapLen allowedExclusions \<noteq> mapLen readyExclusions)"
    by blast
  have change: "\<forall>e. EvChangeCoordinators (Some e) \<notin> set (trace ?out)"
    by (simp add: scenario_pass)
  have update: "\<forall>e. EvUpdateOrApply (Some e) \<notin> set (trace ?out)"
    by (simp add: scenario_pass)
  have allowed: "getAllowedExclusions 5 5 0 1 = 1"
    by (simp add: getAllowedExclusions_def)
  have lens: "mapLen (take 1 globalReady) = 1" "mapLen globalReady = 3"
    by (simp_all add: mapLen_def globalReady_def)
  have gcall: "EvExcludeProcessesWithNoWait [localityOf ''storage-3''] True None
                \<in> set (trace ?global)"
    by (simp add: global_pass)
  have gcheck: "EvAllProcessesReadyForExclusion [] globalReady (Inr (take 1 globalReady))
                \<in> set (trace ?global)"
    by (simp add: global_pass)
  with lens have gpartial: "(\<exists>c missing entries allowed ongoing.
            EvLogWaitingForMissingProcesses c missing entries allowed ongoing
              \<in> set (trace ?global))
         \<or> (\<exists>c missing entries allowed ongoing.
            EvLogContinuingWithExclusion c missing entries allowed ongoing
              \<in> set (trace ?global))
         \<or> (\<exists>pendingExclusions readyExclusions allowedExclusions.
            EvAllProcessesReadyForExclusion pendingExclusions readyExclusions
                (Inr allowedExclusions)
              \<in> set (trace ?global)
            \<and> mapLen allowedExclusions \<noteq> mapLen readyExclusions)"
    by (intro disjI2 exI [of _ "[]"] exI [of _ globalReady]
          exI [of _ "take 1 globalReady"]) simp
  have gquiet: "\<not> list_ex logEvent (trace ?global)"
    by (simp add: global_pass)
  have gchange: "\<forall>e. EvChangeCoordinators (Some e) \<notin> set (trace ?global)"
    by (simp add: global_pass)
  have gupdate: "\<forall>e. EvUpdateOrApply (Some e) \<notin> set (trace ?global)"
    by (simp add: global_pass)
  from partial_exclusion_requeues_after_five_minutes [OF call partial change update]
    partial_exclusion_requeues_after_five_minutes [OF gcall gpartial gchange gupdate]
    call logged allowed lens gcall gcheck gquiet
  show ?thesis by simp
qed

subsection \<open>The transaction system\<close>

text \<open>
  Claim C1 as stated fails. In \<open>mixedCluster\<close> the class log has one candidate and no
  allowed exclusion, the class storage has one candidate and two allowed exclusions;
  the pass makes no exclude call at all (its trace is the one given) and returns the
  delayed requeue of the transaction system: the storage candidate is not excluded.
\<close>

theorem transaction_system_counterexample:
  "exampleIsTransaction ''log'' \<and> \<not> exampleIsTransaction ''storage''
   \<and> fdbProcessesToExcludeByClass
       (getProcessesToExclude exampleEnv [] mixedCluster Map.empty [])
     = [(''storage'', [entryOf ''storage-4'']), (''log'', [entryOf ''log-1''])]
   \<and> fst (getAllowedExclusionsAndMissingProcesses (timeNow exampleEnv ''log'') mixedCluster
            ''log'' 3 0 False) = 0
   \<and> fst (getAllowedExclusionsAndMissingProcesses (timeNow exampleEnv ''storage'')
            mixedCluster ''storage'' 3 0 False) = 2
   \<and> trace (reconcile exampleEnv (exampleReconciler exampleClients) mixedCluster None)
     = [EvGetStatus, EvCanSafelyExcludeProcessesWithRecoveryState None,
        EvLogWaitingForMissingProcesses ''log'' [] [entryOf ''log-1''] 0 0,
        EvClose]
   \<and> result (reconcile exampleEnv (exampleReconciler exampleClients) mixedCluster None)
     = Returned (Some requeueTransactionSystem)"
  by (simp add: mixed_pass mixed_candidates mixed_allowed exampleIsTransaction_def)

lemma log_not_early:
  assumes "list_all earlyEvent evs" and "logEvent ev"
  shows "ev \<notin> set evs"
proof
  assume "ev \<in> set evs"
  with assms(1) have "earlyEvent ev"
    by (simp add: list_all_iff)
  with logEvent_kind [OF assms(2)] show False
    by simp
qed

text \<open>
  Claim C1, as amended. In a pass in which the loop over the classes finds no allowed
  exclusion for a class of the transaction system that has candidates (it logs that it
  waits for that class), no exclude call is made at all, for no class, and the pass
  returns a delayed requeue without error: the one for the transaction system or, when
  no class could exclude anything, the one that more exclusions are not allowed.
\<close>

theorem transaction_system_holds_back_exclusion:
  assumes "EvLogWaitingForMissingProcesses c missing entries allowed ongoing
             \<in> set (trace (reconcile env r cluster status))"
    and "IsTransaction env c"
  shows "(\<forall>addrs locking err.
            EvExcludeProcessesWithNoWait addrs locking err
              \<notin> set (trace (reconcile env r cluster status)))
         \<and> (result (reconcile env r cluster status) = Returned (Some requeueNotAllowed)
            \<or> result (reconcile env r cluster status)
                = Returned (Some requeueTransactionSystem))"
proof -
  let ?ev = "EvLogWaitingForMissingProcesses c missing entries allowed ongoing"
  let ?out = "reconcile env r cluster status"
  from assms(1) have "trace ?out \<noteq> []"
    by auto
  with reconcile_shape [of env r cluster status] obtain adminClient body where
    body: "trace ?out = trace body @ [EvClose]" "result ?out = result body"
    and shape: "endsEarly body
          \<or> (\<exists>st. statusInUse r status = Some st
                 \<and> passShape env adminClient cluster st body)"
    by blast
  from assms(1) body(1) have inBody: "?ev \<in> set (trace body)"
    by simp
  have notEarly: "\<not> endsEarly body"
    using inBody log_not_early [of "trace body" ?ev]
    by (auto simp: endsEarly_def)
  have notCheck: "\<not> endsAtRecoveryCheck body"
  proof
    assume "endsAtRecoveryCheck body"
    then obtain pre e where
      "trace body = pre @ [EvCanSafelyExcludeProcessesWithRecoveryState (Some e)]"
      "list_all earlyEvent pre"
      unfolding endsAtRecoveryCheck_def by blast
    with inBody log_not_early [of pre ?ev] show False
      by auto
  qed
  have notWith: "\<not> endsWithExclusion env adminClient cluster st body" for st
  proof
    let ?E = "\<lambda>toExclude allExcluded.
        reconcile_exclude env adminClient cluster st
          (coordinatorsExclusionString cluster (GetCoordinatorsFromStatus env st))
          (coordinatorsAddress cluster (GetCoordinatorsFromStatus env st))
          toExclude allExcluded"
    assume "endsWithExclusion env adminClient cluster st body"
    then obtain pre logs post toExclude allExcluded where ex:
      "trace body = pre @ logs @ post @ trace (?E toExclude allExcluded)"
      "list_all earlyEvent pre" "list_all logEvent logs" "list_all quietEvent post"
      "\<forall>c missing entries allowed ongoing.
          EvLogWaitingForMissingProcesses c missing entries allowed ongoing \<in> set logs
          \<longrightarrow> \<not> IsTransaction env c"
      unfolding endsWithExclusion_def by blast
    have "?ev \<notin> set (trace (?E toExclude allExcluded))"
    proof
      assume "?ev \<in> set (trace (?E toExclude allExcluded))"
      from reconcile_exclude_events [OF this] show False
        by simp
    qed
    with inBody ex(1,2,4) have "?ev \<in> set logs"
      using event_in_logs [of ?ev pre logs post "trace (?E toExclude allExcluded)"]
      by simp
    with ex(5) assms(2) show False
      by blast
  qed
  from shape notEarly obtain st where "passShape env adminClient cluster st body"
    by blast
  with notEarly notCheck notWith [of st] have without: "endsWithoutExclusion env body"
    by (simp add: passShape_def)
  then obtain pre logs post where shape':
    "trace body = pre @ logs @ post"
    "list_all earlyEvent pre" "list_all logEvent logs" "list_all quietEvent post"
    "(\<exists>c missing entries allowed ongoing.
         EvLogWaitingForMissingProcesses c missing entries allowed ongoing \<in> set logs
       \<and> IsTransaction env c)
      \<longrightarrow> post = []
          \<and> (result body = Returned (Some requeueNotAllowed)
             \<or> result body = Returned (Some requeueTransactionSystem))"
    unfolding endsWithoutExclusion_def by blast
  from inBody shape'(1,2,4) have "?ev \<in> set logs"
    using event_in_logs [of ?ev pre logs post "[]"] by simp
  with shape'(5) assms(2) have
    "result body = Returned (Some requeueNotAllowed)
     \<or> result body = Returned (Some requeueTransactionSystem)"
    by blast
  moreover have "EvExcludeProcessesWithNoWait addrs locking err \<notin> set (trace ?out)"
    for addrs locking err
    by (rule no_exclusion_pass [OF body(1)]) (simp add: without)
  ultimately show ?thesis
    by (simp add: body(2))
qed

theorem transaction_system_holds_back_exclusion_witness:
  "EvExcludeProcessesWithNoWait [localityOf ''storage-4''] True None
     \<notin> set (trace (reconcile exampleEnv (exampleReconciler exampleClients) mixedCluster None))
   \<and> (result (reconcile exampleEnv (exampleReconciler exampleClients) mixedCluster None)
         = Returned (Some requeueNotAllowed)
      \<or> result (reconcile exampleEnv (exampleReconciler exampleClients) mixedCluster None)
         = Returned (Some requeueTransactionSystem))"
proof -
  have waiting: "EvLogWaitingForMissingProcesses ''log'' [] [entryOf ''log-1''] 0 0
      \<in> set (trace (reconcile exampleEnv (exampleReconciler exampleClients) mixedCluster
                       None))"
    by (simp add: mixed_pass)
  have log: "IsTransaction exampleEnv ''log''"
    by (simp add: exampleEnv_def exampleIsTransaction_def)
  from transaction_system_holds_back_exclusion [OF waiting log] show ?thesis
    by blast
qed

end
